theory Spec2Isabelle
  imports Complex_Main "HOL-Library.Char_ord" "HOL-Library.List_Lexorder" "HOL-Library.Multiset"
begin

section \<open>JavaScript values used by the gateway\<close>

text \<open>
  A block height is the result of \<^verbatim>\<open>parseInt(payload.result, 16)\<close>: an integer, or
  \<^verbatim>\<open>NaN\<close> when the string has no hexadecimal prefix. Integers are taken in the range
  where double arithmetic is exact, so \<open>+\<close> on them is integer addition. Every
  comparison with \<^verbatim>\<open>NaN\<close> is false and every sum with it is \<^verbatim>\<open>NaN\<close>.
\<close>

datatype jsnum = NaN | Num int

fun js_gt :: "jsnum \<Rightarrow> jsnum \<Rightarrow> bool" where
  "js_gt (Num a) (Num b) = (a > b)"
| "js_gt _ _ = False"

fun js_ge :: "jsnum \<Rightarrow> jsnum \<Rightarrow> bool" where
  "js_ge (Num a) (Num b) = (a \<ge> b)"
| "js_ge _ _ = False"

fun js_add :: "jsnum \<Rightarrow> jsnum \<Rightarrow> jsnum" where
  "js_add (Num a) (Num b) = Num (a + b)"
| "js_add _ _ = NaN"

text \<open>\<^verbatim>\<open>x % 1\<close>: the remainder of an integer by 1 is 0; of \<^verbatim>\<open>NaN\<close> it is \<^verbatim>\<open>NaN\<close>.\<close>

fun js_rem1 :: "jsnum \<Rightarrow> jsnum" where
  "js_rem1 (Num a) = Num (a mod 1)"
| "js_rem1 NaN = NaN"

text \<open>Truthiness of what \<^verbatim>\<open>redis.get\<close> resolves to: \<^verbatim>\<open>null\<close> and \<^verbatim>\<open>''\<close> are falsy.\<close>

fun truthy :: "string option \<Rightarrow> bool" where
  "truthy None = False"
| "truthy (Some v) = (v \<noteq> [])"

subsection \<open>Array.prototype.sort\<close>

text \<open>
  \<^verbatim>\<open>xs.sort(cmp)\<close> as a stable insertion sort driven by the comparator: an element moves
  past the elements it compares greater than (\<^verbatim>\<open>cmp(x, y) > 0\<close>). For a consistent
  comparator this is the order ECMAScript fixes (sorted and stable); with \<^verbatim>\<open>NaN\<close> keys
  the comparators below are not consistent and the order of an engine is its own.
\<close>

fun js_insert :: "('a \<Rightarrow> 'a \<Rightarrow> int) \<Rightarrow> 'a \<Rightarrow> 'a list \<Rightarrow> 'a list" where
  "js_insert cmp x [] = [x]"
| "js_insert cmp x (y # ys) = (if cmp x y > 0 then y # js_insert cmp x ys else x # y # ys)"

definition js_sort :: "('a \<Rightarrow> 'a \<Rightarrow> int) \<Rightarrow> 'a list \<Rightarrow> 'a list" where
  "js_sort cmp xs = foldr (js_insert cmp) xs []"

section \<open>Session nodes and the session fingerprint\<close>

text \<open>
  The \<^verbatim>\<open>Node\<close> class belongs to the service-node client library, which is not code of
  the repository. The code reads the \<^verbatim>\<open>publicKey\<close> of a node and hands the node to
  \<^verbatim>\<open>JSON.stringify\<close>, which serialises the properties the object enumerates: those of
  the value its \<^verbatim>\<open>toJSON()\<close> returns when the class defines one, its own enumerable
  properties otherwise. A node is its public key with these properties in their order,
  each a name with the JSON text of its value (the text that \<^verbatim>\<open>JSON.stringify\<close> gives
  for the value under the replacer of line 24).
\<close>

record node =
  publicKey :: string
  properties :: "(string \<times> string) list"

text \<open>
  The comparator of line 24:
  \<^verbatim>\<open>(a,b) => (a.publicKey > b.publicKey) ? 1 : ((b.publicKey > a.publicKey) ? -1 : 0)\<close>.
  Strings compare lexicographically by character code.
\<close>

definition cmp_publicKey :: "node \<Rightarrow> node \<Rightarrow> int" where
  "cmp_publicKey a b =
     (if publicKey a > publicKey b then 1 else (if publicKey b > publicKey a then - 1 else 0))"

subsection \<open>JSON.stringify\<close>

text \<open>
  String literals escape the quote and the backslash (the keys and URLs of a session hold
  no control characters). Arrays join their elements with commas.
\<close>

fun json_escape :: "string \<Rightarrow> string" where
  "json_escape [] = []"
| "json_escape (c # cs) =
     (if c = CHR 0x22 \<or> c = CHR 0x5C then CHR 0x5C # c # json_escape cs
      else c # json_escape cs)"

definition json_string :: "string \<Rightarrow> string" where
  "json_string s = CHR 0x22 # json_escape s @ [CHR 0x22]"

fun json_join :: "string list \<Rightarrow> string" where
  "json_join [] = []"
| "json_join [x] = x"
| "json_join (x # y # ys) = x @ '','' @ json_join (y # ys)"

definition json_array :: "string list \<Rightarrow> string" where
  "json_array xs = ''['' @ json_join xs @ '']''"

definition JSON_stringify_strings :: "string list \<Rightarrow> string" where
  "JSON_stringify_strings ks = json_array (map json_string ks)"

text \<open>
  The replacer of line 24, \<^verbatim>\<open>(k, v) => k != 'publicKey' ? v : undefined\<close>, on the name
  of a property and the JSON text of its value.
\<close>

definition replacer :: "string \<Rightarrow> string \<Rightarrow> string option" where
  "replacer k v = (if k \<noteq> ''publicKey'' then Some v else None)"

text \<open>
  \<^verbatim>\<open>JSON.stringify\<close> of an object under a replacer: the members \<^verbatim>\<open>"name":value\<close> of
  the properties in their order, a property that the replacer turns into
  \<^verbatim>\<open>undefined\<close> being left out.
\<close>

fun json_members ::
  "(string \<Rightarrow> string \<Rightarrow> string option) \<Rightarrow> (string \<times> string) list \<Rightarrow> string list" where
  "json_members r [] = []"
| "json_members r ((k, v) # ps) =
     (case r k v of
        None \<Rightarrow> json_members r ps
      | Some v' \<Rightarrow> (json_string k @ '':'' @ v') # json_members r ps)"

definition node_json_elided :: "node \<Rightarrow> string" where
  "node_json_elided n = ''{'' @ json_join (json_members replacer (properties n)) @ ''}''"

definition JSON_stringify_elided :: "node list \<Rightarrow> string" where
  "JSON_stringify_elided ns = json_array (map node_json_elided ns)"

definition syncedNodesKey :: "(string \<Rightarrow> string) \<Rightarrow> string \<Rightarrow> node list \<Rightarrow> string" where
  "syncedNodesKey sha256 blockchain sorted_nodes =
     blockchain @ ''-'' @ sha256 (JSON_stringify_elided sorted_nodes)"

subsection \<open>SHA-256\<close>

text \<open>
  \<^verbatim>\<open>crypto.createHash('sha256').update(m).digest('hex')\<close> is the SHA-256 of FIPS 180-4
  over the bytes of the message, written as 64 lower-case hexadecimal digits. Words are
  numbers below \<open>2 ^ 32\<close>, with the wrap-around of the additions written out. A message
  is taken as one byte for each character, which for ASCII text is the UTF-8 encoding
  that \<^verbatim>\<open>update\<close> uses.
\<close>

unbundle bit_operations_syntax

definition add32 :: "nat \<Rightarrow> nat \<Rightarrow> nat" where
  "add32 a b = (a + b) mod 4294967296"

definition rotr :: "nat \<Rightarrow> nat \<Rightarrow> nat" where
  "rotr n x = x div 2 ^ n + (x mod 2 ^ n) * 2 ^ (32 - n)"

definition shr :: "nat \<Rightarrow> nat \<Rightarrow> nat" where
  "shr n x = x div 2 ^ n"

definition not32 :: "nat \<Rightarrow> nat" where
  "not32 x = 4294967295 - x"

definition Ch :: "nat \<Rightarrow> nat \<Rightarrow> nat \<Rightarrow> nat" where
  "Ch x y z = (x AND y) XOR (not32 x AND z)"

definition Maj :: "nat \<Rightarrow> nat \<Rightarrow> nat \<Rightarrow> nat" where
  "Maj x y z = (x AND y) XOR (x AND z) XOR (y AND z)"

definition Sigma0 :: "nat \<Rightarrow> nat" where
  "Sigma0 x = rotr 2 x XOR rotr 13 x XOR rotr 22 x"

definition Sigma1 :: "nat \<Rightarrow> nat" where
  "Sigma1 x = rotr 6 x XOR rotr 11 x XOR rotr 25 x"

definition sigma0 :: "nat \<Rightarrow> nat" where
  "sigma0 x = rotr 7 x XOR rotr 18 x XOR shr 3 x"

definition sigma1 :: "nat \<Rightarrow> nat" where
  "sigma1 x = rotr 17 x XOR rotr 19 x XOR shr 10 x"

text \<open>The round constants, in the eight rows of eight words of the table of the standard.\<close>

definition K256 :: "nat list" where
  "K256 =
     concat [
      [0x428a2f98, 0x71374491, 0xb5c0fbcf, 0xe9b5dba5, 0x3956c25b, 0x59f111f1, 0x923f82a4, 0xab1c5ed5],
      [0xd807aa98, 0x12835b01, 0x243185be, 0x550c7dc3, 0x72be5d74, 0x80deb1fe, 0x9bdc06a7, 0xc19bf174],
      [0xe49b69c1, 0xefbe4786, 0x0fc19dc6, 0x240ca1cc, 0x2de92c6f, 0x4a7484aa, 0x5cb0a9dc, 0x76f988da],
      [0x983e5152, 0xa831c66d, 0xb00327c8, 0xbf597fc7, 0xc6e00bf3, 0xd5a79147, 0x06ca6351, 0x14292967],
      [0x27b70a85, 0x2e1b2138, 0x4d2c6dfc, 0x53380d13, 0x650a7354, 0x766a0abb, 0x81c2c92e, 0x92722c85],
      [0xa2bfe8a1, 0xa81a664b, 0xc24b8b70, 0xc76c51a3, 0xd192e819, 0xd6990624, 0xf40e3585, 0x106aa070],
      [0x19a4c116, 0x1e376c08, 0x2748774c, 0x34b0bcb5, 0x391c0cb3, 0x4ed8aa4a, 0x5b9cca4f, 0x682e6ff3],
      [0x748f82ee, 0x78a5636f, 0x84c87814, 0x8cc70208, 0x90befffa, 0xa4506ceb, 0xbef9a3f7, 0xc67178f2]]"

type_synonym sha_state = "nat \<times> nat \<times> nat \<times> nat \<times> nat \<times> nat \<times> nat \<times> nat"

definition H256 :: sha_state where
  "H256 = (0x6a09e667, 0xbb67ae85, 0x3c6ef372, 0xa54ff53a,
           0x510e527f, 0x9b05688c, 0x1f83d9ab, 0x5be0cd19)"

text \<open>
  The message schedule, newest word first: \<open>schedule 48\<close> extends the 16 words of a block
  to the 64 words of the rounds.
\<close>

fun schedule :: "nat \<Rightarrow> nat list \<Rightarrow> nat list" where
  "schedule 0 ws = ws"
| "schedule (Suc n) ws =
     schedule n (add32 (add32 (sigma1 (ws ! 1)) (ws ! 6)) (add32 (sigma0 (ws ! 14)) (ws ! 15)) # ws)"

fun round256 :: "sha_state \<Rightarrow> nat \<times> nat \<Rightarrow> sha_state" where
  "round256 (a, b, c, d, e, f, g, h) (k, w) =
     (let t1 = add32 (add32 (add32 h (Sigma1 e)) (add32 (Ch e f g) k)) w;
          t2 = add32 (Sigma0 a) (Maj a b c)
      in (add32 t1 t2, a, b, c, add32 d t1, e, f, g))"

fun add_state :: "sha_state \<Rightarrow> sha_state \<Rightarrow> sha_state" where
  "add_state (a, b, c, d, e, f, g, h) (a', b', c', d', e', f', g', h') =
     (add32 a a', add32 b b', add32 c c', add32 d d', add32 e e', add32 f f', add32 g g',
      add32 h h')"

definition compress :: "sha_state \<Rightarrow> nat list \<Rightarrow> sha_state" where
  "compress hs block =
     add_state hs (foldl round256 hs (zip K256 (rev (schedule 48 (rev block)))))"

text \<open>
  Padding: the byte \<^verbatim>\<open>0x80\<close>, zero bytes up to 56 modulo 64, and the length of the message
  in bits as 8 bytes; then big-endian words in blocks of 16.
\<close>

fun be32 :: "nat list \<Rightarrow> nat list" where
  "be32 (a # b # c # d # rest) = (((a * 256 + b) * 256 + c) * 256 + d) # be32 rest"
| "be32 _ = []"

definition length_bytes :: "nat \<Rightarrow> nat list" where
  "length_bytes n =
     [n div 72057594037927936 mod 256, n div 281474976710656 mod 256,
      n div 1099511627776 mod 256, n div 4294967296 mod 256,
      n div 16777216 mod 256, n div 65536 mod 256, n div 256 mod 256, n mod 256]"

definition pad :: "nat list \<Rightarrow> nat list" where
  "pad bs =
     bs @ [128] @ replicate ((119 - length bs mod 64) mod 64) 0 @ length_bytes (8 * length bs)"

fun blocks :: "nat list \<Rightarrow> nat list list" where
  "blocks [] = []"
| "blocks ws = take 16 ws # blocks (drop 16 ws)"

definition hex_digit :: "nat \<Rightarrow> char" where
  "hex_digit n = ''0123456789abcdef'' ! (n mod 16)"

definition hex32 :: "nat \<Rightarrow> string" where
  "hex32 w =
     [hex_digit (w div 268435456), hex_digit (w div 16777216), hex_digit (w div 1048576),
      hex_digit (w div 65536), hex_digit (w div 4096), hex_digit (w div 256),
      hex_digit (w div 16), hex_digit w]"

definition sha256 :: "string \<Rightarrow> sha_state" where
  "sha256 m = foldl compress H256 (blocks (be32 (pad (map of_char m))))"

fun hex_state :: "sha_state \<Rightarrow> string" where
  "hex_state (a, b, c, d, e, f, g, h) =
     hex32 a @ hex32 b @ hex32 c @ hex32 d @ hex32 e @ hex32 f @ hex32 g @ hex32 h"

definition SHA256_hex :: "string \<Rightarrow> string" where
  "SHA256_hex m = hex_state (sha256 m)"

section \<open>The cache, the collaborators and the trace of effects\<close>

text \<open>
  What a call can end with instead of a value: the exception of \<^verbatim>\<open>JSON.parse\<close> (or of
  reading a property of what it returned), the rejection of a repository call with its
  message, \<^verbatim>\<open>HttpErrors.Forbidden\<close> (status 403) with its message, and an index outside
  the verified list.
\<close>

datatype error =
    JSONError
  | Rejected string
  | Forbidden string
  | IndexOutOfRange

text \<open>The options of \<^verbatim>\<open>SET\<close>: \<^verbatim>\<open>EX seconds\<close> and \<^verbatim>\<open>NX\<close> (set only if the key is absent).\<close>

datatype set_arg = OptEX nat | OptNX

record configuration =
  maxDispatchers :: nat
  maxSessions :: nat
  consensusNodeCount :: nat
  requestTimeOut :: nat
  acceptDisputedResponses :: bool
  sessionBlockFrequency :: nat
  blockTime :: nat
  maxSessionRefreshRetries :: nat
  validateRelayResponses :: bool
  rejectSelfSignedCertificates :: bool

text \<open>
  The record handed to \<^verbatim>\<open>metricsRecorder.recordMetric\<close>, its start time left out; the
  fields carry the prefix \<open>m_\<close> to keep them apart from the parameters of the same names.
\<close>

record metric =
  m_requestID :: string
  m_applicationID :: string
  m_appPubKey :: string
  m_blockchain :: string
  m_serviceNode :: string
  m_result :: int
  m_bytes :: nat
  m_delivered :: bool
  m_fallback :: bool
  m_method :: string
  m_error :: string

text \<open>
  Every call on a collaborator is an event, in the order the calls are awaited. A log
  entry keeps the level, the constant head of the message and the service node of its
  metadata; a relay keeps the arguments of \<^verbatim>\<open>pocket.sendRelay\<close> that are not
  \<^verbatim>\<open>undefined\<close> or constant.
\<close>

datatype event =
    is_RedisGet: RedisGet string
  | is_RedisSet: RedisSet string string "set_arg list"
  | is_SendRelay: SendRelay string string string configuration "node option" bool string
  | is_LogEntry: LogEntry (log_level: string) (log_head: string) (log_serviceNode: string)
  | is_RecordMetric: RecordMetric metric
  | is_FindById: FindById string string

text \<open>A cache entry is its value with the expiry it was written with, in seconds.\<close>

record state =
  cache :: "string \<rightharpoonup> string \<times> nat option"
  events :: "event list"

definition emit :: "event \<Rightarrow> state \<Rightarrow> state" where
  "emit e s = s\<lparr>events := events s @ [e]\<rparr>"

definition cached :: "state \<Rightarrow> string \<Rightarrow> string option" where
  "cached s k = map_option fst (cache s k)"

definition redis_get :: "string \<Rightarrow> state \<Rightarrow> string option \<times> state" where
  "redis_get k s = (cached s k, emit (RedisGet k) s)"

fun expiry :: "set_arg list \<Rightarrow> nat option" where
  "expiry [] = None"
| "expiry (OptEX t # _) = Some t"
| "expiry (OptNX # args) = expiry args"

definition redis_set :: "string \<Rightarrow> string \<Rightarrow> set_arg list \<Rightarrow> state \<Rightarrow> state" where
  "redis_set k v args s =
     emit (RedisSet k v args)
       (if OptNX \<in> set args \<and> cache s k \<noteq> None then s
        else s\<lparr>cache := (cache s)(k \<mapsto> (v, expiry args))\<rparr>)"

section \<open>SyncChecker\<close>

text \<open>
  What \<^verbatim>\<open>pocket.sendRelay\<close> resolves to for the probe of a node. A \<^verbatim>\<open>RelayResponse\<close>
  carries a payload: \<open>Result h\<close> when \<^verbatim>\<open>JSON.parse\<close> accepts it and
  \<^verbatim>\<open>parseInt(payload.result, 16)\<close> is \<open>h\<close>, \<open>Unparseable\<close> when \<^verbatim>\<open>JSON.parse\<close> or the
  property access throws.
\<close>

datatype payload = Unparseable | Result jsnum

datatype relay_result = RelayResponse payload | RelayError string | Neither

text \<open>
  The collaborators of \<^verbatim>\<open>consensusFilter\<close> that are not code of the repository: the
  SHA-256 hex digest of \<^verbatim>\<open>crypto\<close>, the relay sender, and \<^verbatim>\<open>JSON.parse\<close> on a cached
  list of public keys.
\<close>

record env =
  sha256_hex :: "string \<Rightarrow> string"
  sendRelay :: "node \<Rightarrow> relay_result"
  JSON_parse_strings :: "string \<Rightarrow> error + string list"

text \<open>The type of line 222; its field \<^verbatim>\<open>blockchain\<close> is \<open>nsl_blockchain\<close> here.\<close>

record NodeSyncLog =
  node :: node
  nsl_blockchain :: string
  blockHeight :: jsnum

definition updateConfigurationConsensus :: "configuration \<Rightarrow> configuration" where
  "updateConfigurationConsensus pocketConfiguration =
     \<lparr>maxDispatchers = maxDispatchers pocketConfiguration,
      maxSessions = maxSessions pocketConfiguration,
      consensusNodeCount = 5,
      requestTimeOut = 2000,
      acceptDisputedResponses = False,
      sessionBlockFrequency = sessionBlockFrequency pocketConfiguration,
      blockTime = blockTime pocketConfiguration,
      maxSessionRefreshRetries = maxSessionRefreshRetries pocketConfiguration,
      validateRelayResponses = validateRelayResponses pocketConfiguration,
      rejectSelfSignedCertificates = rejectSelfSignedCertificates pocketConfiguration\<rparr>"

definition updateConfigurationTimeout :: "configuration \<Rightarrow> configuration" where
  "updateConfigurationTimeout pocketConfiguration =
     \<lparr>maxDispatchers = maxDispatchers pocketConfiguration,
      maxSessions = maxSessions pocketConfiguration,
      consensusNodeCount = consensusNodeCount pocketConfiguration,
      requestTimeOut = 5000,
      acceptDisputedResponses = acceptDisputedResponses pocketConfiguration,
      sessionBlockFrequency = sessionBlockFrequency pocketConfiguration,
      blockTime = blockTime pocketConfiguration,
      maxSessionRefreshRetries = maxSessionRefreshRetries pocketConfiguration,
      validateRelayResponses = validateRelayResponses pocketConfiguration,
      rejectSelfSignedCertificates = rejectSelfSignedCertificates pocketConfiguration\<rparr>"

text \<open>The metric of a failed probe (lines 86 to 99) and of a node found behind (144 to 157).\<close>

definition probe_failure_metric :: "string \<Rightarrow> string \<Rightarrow> string \<Rightarrow> node \<Rightarrow> string \<Rightarrow> metric" where
  "probe_failure_metric applicationID applicationPublicKey blockchain n message =
     \<lparr>m_requestID = ''synccheck'', m_applicationID = applicationID,
      m_appPubKey = applicationPublicKey, m_blockchain = blockchain,
      m_serviceNode = publicKey n, m_result = 500, m_bytes = length message,
      m_delivered = False, m_fallback = False, m_method = ''synccheck'',
      m_error = message\<rparr>"

definition out_of_sync_metric :: "string \<Rightarrow> string \<Rightarrow> string \<Rightarrow> node \<Rightarrow> metric" where
  "out_of_sync_metric applicationID applicationPublicKey blockchain n =
     \<lparr>m_requestID = ''synccheck'', m_applicationID = applicationID,
      m_appPubKey = applicationPublicKey, m_blockchain = blockchain,
      m_serviceNode = publicKey n, m_result = 500, m_bytes = length ''OUT OF SYNC'',
      m_delivered = False, m_fallback = False, m_method = ''synccheck'',
      m_error = ''OUT OF SYNC''\<rparr>"

text \<open>
  The probe loop, lines 53 to 101: one relay per node with the timeout configuration; a
  response adds a \<open>NodeSyncLog\<close>, a relay error is logged and recorded as a metric, and
  anything else is passed over. A payload that does not parse ends the call with the
  exception.
\<close>

fun probe_nodes ::
  "env \<Rightarrow> string \<Rightarrow> string \<Rightarrow> string \<Rightarrow> string \<Rightarrow> string \<Rightarrow> configuration \<Rightarrow>
   node list \<Rightarrow> NodeSyncLog list \<Rightarrow> state \<Rightarrow> (error + NodeSyncLog list) \<times> state" where
  "probe_nodes E syncCheck blockchain applicationID applicationPublicKey pocketAAT
     pocketConfiguration [] nodeSyncLogs s = (Inr nodeSyncLogs, s)"
| "probe_nodes E syncCheck blockchain applicationID applicationPublicKey pocketAAT
     pocketConfiguration (n # ns) nodeSyncLogs s =
     (let s1 = emit (SendRelay syncCheck blockchain pocketAAT
                       (updateConfigurationTimeout pocketConfiguration) (Some n) False
                       ''synccheck'') s
      in case sendRelay E n of
           RelayResponse Unparseable \<Rightarrow> (Inl JSONError, s1)
         | RelayResponse (Result h) \<Rightarrow>
             probe_nodes E syncCheck blockchain applicationID applicationPublicKey pocketAAT
               pocketConfiguration ns
               (nodeSyncLogs @ [\<lparr>node = n, nsl_blockchain = blockchain, blockHeight = h\<rparr>])
               (emit (LogEntry ''info'' ''SYNC CHECK RESULT: '' (publicKey n)) s1)
         | RelayError message \<Rightarrow>
             probe_nodes E syncCheck blockchain applicationID applicationPublicKey pocketAAT
               pocketConfiguration ns nodeSyncLogs
               (emit (RecordMetric (probe_failure_metric applicationID applicationPublicKey
                                      blockchain n message))
                  (emit (LogEntry ''error'' ''SYNC CHECK ERROR: '' (publicKey n)) s1))
         | Neither \<Rightarrow>
             probe_nodes E syncCheck blockchain applicationID applicationPublicKey pocketAAT
               pocketConfiguration ns nodeSyncLogs s1)"

text \<open>
  The comparator of line 110:
  \<^verbatim>\<open>(a,b) => (a.blockHeight > b.blockHeight) ? 1 : ((b.blockHeight > a.blockHeight) ? -1 : 0)\<close>.
\<close>

definition cmp_blockHeight :: "NodeSyncLog \<Rightarrow> NodeSyncLog \<Rightarrow> int" where
  "cmp_blockHeight a b =
     (if js_gt (blockHeight a) (blockHeight b) then 1
      else (if js_gt (blockHeight b) (blockHeight a) then - 1 else 0))"

text \<open>
  Lines 113 to 117. \<^verbatim>\<open>typeof blockHeight !== 'number'\<close> is false for every value of
  \<open>jsnum\<close>, \<^verbatim>\<open>NaN\<close> included.
\<close>

definition top_invalid :: "NodeSyncLog list \<Rightarrow> bool" where
  "top_invalid nodeSyncLogs =
     (blockHeight (nodeSyncLogs ! 0) = Num 0 \<or> False \<or>
      js_rem1 (blockHeight (nodeSyncLogs ! 0)) \<noteq> Num 0)"

text \<open>Line 124.\<close>

definition cannot_agree :: "NodeSyncLog list \<Rightarrow> bool" where
  "cannot_agree nodeSyncLogs =
     js_gt (blockHeight (nodeSyncLogs ! 0)) (js_add (blockHeight (nodeSyncLogs ! 1)) (Num 1))"

text \<open>
  The admission loop, lines 132 to 159, over the sorted logs: the accumulator is
  \<^verbatim>\<open>syncedNodes\<close> with \<^verbatim>\<open>syncedNodesList\<close>.
\<close>

fun admit_nodes ::
  "int \<Rightarrow> string \<Rightarrow> string \<Rightarrow> string \<Rightarrow> jsnum \<Rightarrow> NodeSyncLog list \<Rightarrow>
   node list \<times> string list \<Rightarrow> state \<Rightarrow> (node list \<times> string list) \<times> state" where
  "admit_nodes syncAllowance blockchain applicationID applicationPublicKey currentBlockHeight
     [] acc s = (acc, s)"
| "admit_nodes syncAllowance blockchain applicationID applicationPublicKey currentBlockHeight
     (l # ls) (syncedNodes, syncedNodesList) s =
     (if js_ge (js_add (blockHeight l) (Num syncAllowance)) currentBlockHeight
      then admit_nodes syncAllowance blockchain applicationID applicationPublicKey
             currentBlockHeight ls
             (syncedNodes @ [node l], syncedNodesList @ [publicKey (node l)])
             (emit (LogEntry ''info'' ''SYNC CHECK IN-SYNC: '' (publicKey (node l))) s)
      else admit_nodes syncAllowance blockchain applicationID applicationPublicKey
             currentBlockHeight ls (syncedNodes, syncedNodesList)
             (emit (RecordMetric (out_of_sync_metric applicationID applicationPublicKey
                                    blockchain (node l)))
                (emit (LogEntry ''info'' ''SYNC CHECK BEHIND: '' (publicKey (node l))) s)))"

text \<open>
  What a call returns: the caller's own array (\<^verbatim>\<open>return nodes\<close>) or the array
  \<^verbatim>\<open>syncedNodes\<close> built by the call. The outcome keeps, beside the result and the
  state reached, what the caller's array holds when the call ends.
\<close>

datatype returned = InputArray | FreshArray "node list"

record outcome =
  result :: "error + returned"
  nodes_after :: "node list"
  final :: state

text \<open>Lines 103 to 188: everything after the probe loop, on the sorted caller's array.\<close>

definition after_probes ::
  "string \<Rightarrow> int \<Rightarrow> string \<Rightarrow> string \<Rightarrow> string \<Rightarrow> string \<Rightarrow> configuration \<Rightarrow>
   string \<Rightarrow> NodeSyncLog list \<Rightarrow> state \<Rightarrow> (error + returned) \<times> state" where
  "after_probes syncCheck syncAllowance blockchain applicationID applicationPublicKey pocketAAT
     pocketConfiguration syncedNodesKey' probed s =
     (if length probed \<le> 2
      then (Inr InputArray,
            emit (LogEntry ''error'' ''SYNC CHECK ERROR: fewer than 3 nodes returned sync'' []) s)
      else
        let nodeSyncLogs = js_sort cmp_blockHeight probed in
        if top_invalid nodeSyncLogs
        then (Inr InputArray,
              emit (LogEntry ''error'' ''SYNC CHECK ERROR: top synced node result is invalid '' []) s)
        else if cannot_agree nodeSyncLogs
        then (Inr InputArray,
              emit (LogEntry ''error''
                      ''SYNC CHECK ERROR: two highest nodes could not agree on sync'' []) s)
        else
          let currentBlockHeight = blockHeight (nodeSyncLogs ! 0);
              ((syncedNodes, syncedNodesList), s1) =
                 admit_nodes syncAllowance blockchain applicationID applicationPublicKey
                   currentBlockHeight nodeSyncLogs ([], []) s;
              s2 = emit (LogEntry ''info'' ''SYNC CHECK COMPLETE: '' []) s1;
              s3 = redis_set syncedNodesKey' (JSON_stringify_strings syncedNodesList) [OptEX 300] s2;
              s4 = (if length syncedNodes < 5
                    then emit (LogEntry ''info'' ''SYNC CHECK CHALLENGE: '' [])
                           (emit (SendRelay syncCheck blockchain pocketAAT
                                    (updateConfigurationConsensus pocketConfiguration) None True
                                    ''syncheck'') s3)
                    else s3)
          in (Inr (FreshArray syncedNodes), s4))"

text \<open>
  \<^verbatim>\<open>consensusFilter\<close>, lines 18 to 101 and then \<open>after_probes\<close>. Line 24 sorts the
  caller's array in place; every later use of \<^verbatim>\<open>nodes\<close> reads the sorted array. The
  relay sender \<^verbatim>\<open>pocket\<close> and the cache \<^verbatim>\<open>this.redis\<close> are the environment and the
  state; \<^verbatim>\<open>syncAllowance\<close> defaults to 1 at the call.
\<close>

definition consensusFilter ::
  "env \<Rightarrow> state \<Rightarrow> node list \<Rightarrow> string \<Rightarrow> int \<Rightarrow> string \<Rightarrow> string \<Rightarrow> string \<Rightarrow> string \<Rightarrow>
   configuration \<Rightarrow> outcome" where
  "consensusFilter E s0 nodes syncCheck syncAllowance blockchain applicationID
     applicationPublicKey pocketAAT pocketConfiguration =
     (let nodes' = js_sort cmp_publicKey nodes;
          syncedNodesKey' = syncedNodesKey (sha256_hex E) blockchain nodes';
          (syncedNodesCached, s1) = redis_get syncedNodesKey' s0
      in if truthy syncedNodesCached
         then (case JSON_parse_strings E (the syncedNodesCached) of
                 Inl e \<Rightarrow> \<lparr>result = Inl e, nodes_after = nodes', final = s1\<rparr>
               | Inr syncedNodesList \<Rightarrow>
                   \<lparr>result = Inr (FreshArray
                                   (filter (\<lambda>n. publicKey n \<in> set syncedNodesList) nodes')),
                    nodes_after = nodes', final = s1\<rparr>)
         else
           let (syncLock, s2) = redis_get (''lock-'' @ syncedNodesKey') s1
           in if truthy syncLock
              then \<lparr>result = Inr InputArray, nodes_after = nodes', final = s2\<rparr>
              else
                let s3 = redis_set (''lock-'' @ syncedNodesKey') ''true'' [OptEX 60] s2
                in case probe_nodes E syncCheck blockchain applicationID applicationPublicKey
                          pocketAAT pocketConfiguration nodes' [] s3 of
                     (Inl e, s4) \<Rightarrow> \<lparr>result = Inl e, nodes_after = nodes', final = s4\<rparr>
                   | (Inr probed, s4) \<Rightarrow>
                       (let (r, s5) = after_probes syncCheck syncAllowance blockchain
                                        applicationID applicationPublicKey pocketAAT
                                        pocketConfiguration syncedNodesKey' probed s4
                        in \<lparr>result = r, nodes_after = nodes', final = s5\<rparr>))"

text \<open>The list a caller reads from what the call returned.\<close>

definition returned_nodes :: "outcome \<Rightarrow> node list option" where
  "returned_nodes out =
     (case result out of
        Inl e \<Rightarrow> None
      | Inr InputArray \<Rightarrow> Some (nodes_after out)
      | Inr (FreshArray ns) \<Rightarrow> Some ns)"

section \<open>V1Controller: applications and load balancers\<close>

text \<open>
  Modelled from the spec: the \<^verbatim>\<open>Applications\<close> model of the repository's models, which
  is not among the sources. The spec gives an application the fields
  \<^verbatim>\<open>{id, publicKey, freeTierAAT, gatewayAAT, chains[], settings}\<close>. An object built from
  cached JSON may lack its \<^verbatim>\<open>id\<close>.
\<close>

record application =
  app_id :: "string option"
  app_publicKey :: string
  freeTierAAT :: string
  gatewayAAT :: string
  app_chains :: "string list"
  settings :: string

text \<open>
  The collaborators of the controller that are not among the sources: the applications
  repository, whose \<^verbatim>\<open>findById\<close> rejects, or resolves to nothing or to a record; the
  string that \<^verbatim>\<open>JSON.stringify(application)\<close> puts in the cache;
  \<^verbatim>\<open>new Applications(JSON.parse(cached))\<close>; and \<^verbatim>\<open>JSON.parse\<close> on a cached list of
  application IDs.
\<close>

record repo_env =
  findById :: "string \<Rightarrow> string \<Rightarrow> error + application option"
  JSON_stringify_application :: "application option \<Rightarrow> string"
  new_Applications :: "string \<Rightarrow> error + application"
  JSON_parse_ids :: "string \<Rightarrow> error + string list"

text \<open>\<^verbatim>\<open>fetchApp\<close>, lines 94 to 102 of the controller.\<close>

definition fetchApp ::
  "repo_env \<Rightarrow> state \<Rightarrow> string \<Rightarrow> string \<Rightarrow> (error + application option) \<times> state" where
  "fetchApp R s0 id' filter_arg =
     (let (cachedApplication, s1) = redis_get id' s0
      in if \<not> truthy cachedApplication
         then
           let s2 = emit (FindById id' filter_arg) s1
           in case findById R id' filter_arg of
                Inl e \<Rightarrow> (Inl e, s2)
              | Inr application \<Rightarrow>
                  (Inr application,
                   redis_set id' (JSON_stringify_application R application) [OptEX 60] s2)
         else (case new_Applications R (the cachedApplication) of
                 Inl e \<Rightarrow> (Inl e, s1)
               | Inr a \<Rightarrow> (Inr (Some a), s1)))"





section \<open>Observations on a run\<close>

text \<open>The events a call added to the trace it started from.\<close>

definition new_events :: "state \<Rightarrow> state \<Rightarrow> event list" where
  "new_events s0 s = drop (length (events s0)) (events s)"

text \<open>The entry that only the out-of-sync branch of the admission loop logs (line 142).\<close>

definition is_behind :: "event \<Rightarrow> bool" where
  "is_behind e = (is_LogEntry e \<and> log_head e = ''SYNC CHECK BEHIND: '')"

text \<open>The block height of a log as an integer (0 for \<^verbatim>\<open>NaN\<close>).\<close>

fun int_of :: "jsnum \<Rightarrow> int" where
  "int_of (Num a) = a"
| "int_of NaN = 0"

text \<open>The nodes of a list whose probe came back as a \<^verbatim>\<open>RelayResponse\<close> with a height.\<close>

definition answered :: "env \<Rightarrow> node \<Rightarrow> bool" where
  "answered E n = (case sendRelay E n of RelayResponse (Result h) \<Rightarrow> True | _ \<Rightarrow> False)"

definition height_reported :: "env \<Rightarrow> node \<Rightarrow> jsnum" where
  "height_reported E n = (case sendRelay E n of RelayResponse (Result h) \<Rightarrow> h | _ \<Rightarrow> NaN)"

definition probed_logs :: "env \<Rightarrow> string \<Rightarrow> node list \<Rightarrow> NodeSyncLog list" where
  "probed_logs E blockchain ns =
     map (\<lambda>n. \<lparr>node = n, nsl_blockchain = blockchain, blockHeight = height_reported E n\<rparr>)
       (filter (answered E) ns)"

text \<open>The metrics of the probes that came back as a \<^verbatim>\<open>RelayError\<close>, in probe order.\<close>

fun failure_metrics :: "env \<Rightarrow> string \<Rightarrow> string \<Rightarrow> string \<Rightarrow> node list \<Rightarrow> event list" where
  "failure_metrics E applicationID applicationPublicKey blockchain [] = []"
| "failure_metrics E applicationID applicationPublicKey blockchain (n # ns) =
     (case sendRelay E n of
        RelayError message \<Rightarrow>
          RecordMetric (probe_failure_metric applicationID applicationPublicKey blockchain n
                          message)
          # failure_metrics E applicationID applicationPublicKey blockchain ns
      | _ \<Rightarrow> failure_metrics E applicationID applicationPublicKey blockchain ns)"

text \<open>The test of line 133 on a log, for an allowance and a reference height.\<close>

definition admits :: "int \<Rightarrow> jsnum \<Rightarrow> NodeSyncLog \<Rightarrow> bool" where
  "admits syncAllowance currentBlockHeight l =
     js_ge (js_add (blockHeight l) (Num syncAllowance)) currentBlockHeight"

text \<open>
  Names for what a call computes on the way: the cache key of the session (line 24), the
  key of its lock, the logs the probe loop collects and the logs as line 110 sorts them.
\<close>

abbreviation session_key :: "env \<Rightarrow> string \<Rightarrow> node list \<Rightarrow> string" where
  "session_key E blockchain nodes \<equiv>
     syncedNodesKey (sha256_hex E) blockchain (js_sort cmp_publicKey nodes)"

abbreviation lock_key :: "env \<Rightarrow> string \<Rightarrow> node list \<Rightarrow> string" where
  "lock_key E blockchain nodes \<equiv> ''lock-'' @ session_key E blockchain nodes"

abbreviation probes :: "env \<Rightarrow> string \<Rightarrow> node list \<Rightarrow> NodeSyncLog list" where
  "probes E blockchain nodes \<equiv> probed_logs E blockchain (js_sort cmp_publicKey nodes)"

abbreviation sorted_probes :: "env \<Rightarrow> string \<Rightarrow> node list \<Rightarrow> NodeSyncLog list" where
  "sorted_probes E blockchain nodes \<equiv> js_sort cmp_blockHeight (probes E blockchain nodes)"



section \<open>Concrete sessions\<close>

text \<open>
  Nodes, collaborators and states on which the functions are run: a node named by its
  public key, a relay sender that answers with the heights of a table and fails for the
  other nodes, and an empty cache. The digest of these runs is a stand-in that maps every
  message to the same string. The properties of a node are its own.
\<close>

definition mk_node :: "string \<Rightarrow> node" where
  "mk_node pk =
     \<lparr>publicKey = pk,
      properties = [(''publicKey'', json_string pk),
                    (''serviceURL'', json_string (''https://'' @ pk)),
                    (''chains'', JSON_stringify_strings [''0021''])]\<rparr>"

definition heights_env :: "(string \<times> int) list \<Rightarrow> env" where
  "heights_env hs =
     \<lparr>sha256_hex = (\<lambda>m. ''5ca1ab1e''),
      sendRelay = (\<lambda>n. case map_of hs (publicKey n) of
                          None \<Rightarrow> RelayError ''timeout''
                        | Some h \<Rightarrow> RelayResponse (Result (Num h))),
      JSON_parse_strings = (\<lambda>v. if v = JSON_stringify_strings [''a'', ''c''] then Inr [''a'', ''c'']
                                  else Inl JSONError)\<rparr>"

definition empty_state :: state where
  "empty_state = \<lparr>cache = Map.empty, events = []\<rparr>"

definition cfg0 :: configuration where
  "cfg0 = \<lparr>maxDispatchers = 1, maxSessions = 1, consensusNodeCount = 0, requestTimeOut = 0,
           acceptDisputedResponses = False, sessionBlockFrequency = 4, blockTime = 1,
           maxSessionRefreshRetries = 1, validateRelayResponses = False,
           rejectSelfSignedCertificates = False\<rparr>"



text \<open>
  A cache that holds the list \<^verbatim>\<open>["a","c"]\<close> for the session of these runs, and a cache
  that holds its lock.
\<close>

definition cached_state :: state where
  "cached_state =
     \<lparr>cache = [''0021-5ca1ab1e'' \<mapsto> (JSON_stringify_strings [''a'', ''c''], Some 300)],
      events = []\<rparr>"

definition locked_state :: state where
  "locked_state = \<lparr>cache = [''lock-0021-5ca1ab1e'' \<mapsto> (''true'', Some 60)], events = []\<rparr>"



text \<open>
  A relay sender for which the nodes \<^verbatim>\<open>a\<close> and \<^verbatim>\<open>c\<close> answer with the height 100 and the
  node \<^verbatim>\<open>b\<close> answers with a payload that \<^verbatim>\<open>JSON.parse\<close> rejects.
\<close>

definition garbled_env :: env where
  "garbled_env =
     (heights_env [])\<lparr>sendRelay :=
        (\<lambda>n. if publicKey n = ''b'' then RelayResponse Unparseable
             else if publicKey n \<in> {''a'', ''c''} then RelayResponse (Result (Num 100))
             else RelayError ''timeout'')\<rparr>"





section \<open>The sort\<close>

lemma js_insert_cmp_publicKey: "js_insert cmp_publicKey x xs = insort_key publicKey x xs"
  by (induction xs) (auto simp: cmp_publicKey_def)

lemma js_sort_cmp_publicKey: "js_sort cmp_publicKey xs = sort_key publicKey xs"
  by (induction xs) (simp_all add: js_sort_def js_insert_cmp_publicKey)

lemma js_gt_Num_iff: "h \<noteq> NaN \<Longrightarrow> k \<noteq> NaN \<Longrightarrow> js_gt h k = (int_of h > int_of k)"
  by (cases h; cases k) simp_all

lemma js_insert_cmp_blockHeight:
  assumes "blockHeight x \<noteq> NaN" and "\<forall>l \<in> set ls. blockHeight l \<noteq> NaN"
  shows "js_insert cmp_blockHeight x ls = insort_key (\<lambda>l. int_of (blockHeight l)) x ls"
  using assms by (induction ls) (auto simp: cmp_blockHeight_def js_gt_Num_iff)

lemma js_sort_cmp_blockHeight:
  assumes "\<forall>l \<in> set ls. blockHeight l \<noteq> NaN"
  shows "js_sort cmp_blockHeight ls = sort_key (\<lambda>l. int_of (blockHeight l)) ls"
  using assms
proof (induction ls)
  case Nil
  then show ?case by (simp add: js_sort_def)
next
  case (Cons x ls)
  then have ih: "js_sort cmp_blockHeight ls = sort_key (\<lambda>l. int_of (blockHeight l)) ls"
    by simp
  have "js_sort cmp_blockHeight (x # ls) = js_insert cmp_blockHeight x (js_sort cmp_blockHeight ls)"
    by (simp add: js_sort_def)
  also have "\<dots> = insort_key (\<lambda>l. int_of (blockHeight l)) x (js_sort cmp_blockHeight ls)"
    using Cons.prems by (intro js_insert_cmp_blockHeight) (simp_all add: ih)
  finally show ?case by (simp add: ih)
qed

text \<open>The sort is a permutation for every comparator.\<close>

lemma mset_js_insert: "mset (js_insert cmp x xs) = add_mset x (mset xs)"
  by (induction xs) simp_all

lemma mset_js_sort: "mset (js_sort cmp xs) = mset xs"
  by (induction xs) (simp_all add: js_sort_def mset_js_insert)

lemma set_js_sort: "set (js_sort cmp xs) = set xs"
  by (metis mset_js_sort set_mset_mset)

lemma length_js_sort: "length (js_sort cmp xs) = length xs"
  by (metis mset_js_sort size_mset)

section \<open>The probe loop and the admission loop\<close>

lemma emit_simps [simp]: "events (emit e s) = events s @ [e]" "cache (emit e s) = cache s"
  by (simp_all add: emit_def)

lemma cached_emit [simp]: "cached (emit e s) k = cached s k"
  by (simp add: cached_def)

lemma is_behind_simps [simp]:
  "is_behind (LogEntry lv h pk) = (h = ''SYNC CHECK BEHIND: '')"
  "is_behind (RedisGet k) = False"
  "is_behind (RedisSet k v args) = False"
  "is_behind (SendRelay a b c d e f g) = False"
  "is_behind (RecordMetric m) = False"
  "is_behind (FindById i fl) = False"
  by (simp_all add: is_behind_def)

lemma probed_logs_Nil [simp]: "probed_logs E bc [] = []"
  by (simp add: probed_logs_def)

lemma probed_logs_Cons:
  "probed_logs E bc (n # ns) =
     (case sendRelay E n of
        RelayResponse (Result h) \<Rightarrow> \<lparr>node = n, nsl_blockchain = bc, blockHeight = h\<rparr> # probed_logs E bc ns
      | _ \<Rightarrow> probed_logs E bc ns)"
  by (simp add: probed_logs_def answered_def height_reported_def
        split: relay_result.splits payload.splits)

lemma probe_nodes_logs:
  "fst (probe_nodes E sc bc aid apk aat cfg ns acc s) = Inr logs \<Longrightarrow>
   logs = acc @ probed_logs E bc ns"
proof (induction ns arbitrary: acc s)
  case Nil
  then show ?case by simp
next
  case (Cons n ns)
  show ?case
  proof (cases "sendRelay E n")
    case (RelayResponse p)
    show ?thesis
    proof (cases p)
      case Unparseable
      with RelayResponse Cons.prems show ?thesis by (simp add: Let_def)
    next
      case (Result h)
      with RelayResponse Cons.prems
      have "logs = (acc @ [\<lparr>node = n, nsl_blockchain = bc, blockHeight = h\<rparr>]) @ probed_logs E bc ns"
        by (intro Cons.IH) (simp add: Let_def)
      with RelayResponse Result show ?thesis by (simp add: probed_logs_Cons)
    qed
  next
    case (RelayError m)
    with Cons.prems have "logs = acc @ probed_logs E bc ns"
      by (intro Cons.IH) (simp add: Let_def)
    with RelayError show ?thesis by (simp add: probed_logs_Cons)
  next
    case Neither
    with Cons.prems have "logs = acc @ probed_logs E bc ns"
      by (intro Cons.IH) (simp add: Let_def)
    with Neither show ?thesis by (simp add: probed_logs_Cons)
  qed
qed

lemma probe_nodes_completes:
  "\<forall>n \<in> set ns. sendRelay E n \<noteq> RelayResponse Unparseable \<Longrightarrow>
   fst (probe_nodes E sc bc aid apk aat cfg ns acc s) = Inr (acc @ probed_logs E bc ns)"
proof (induction ns arbitrary: acc s)
  case Nil
  then show ?case by simp
next
  case (Cons n ns)
  then show ?case
    by (cases "sendRelay E n") (auto simp: Let_def probed_logs_Cons split: payload.splits)
qed

text \<open>The trace of the probe loop: relays, result logs, error logs and failure metrics.\<close>

lemma probe_nodes_state:
  "\<exists>es. snd (probe_nodes E sc bc aid apk aat cfg ns acc s) = s\<lparr>events := events s @ es\<rparr>
        \<and> filter is_behind es = [] \<and> filter is_RedisSet es = []
        \<and> LogEntry ''error'' ''SYNC CHECK ERROR: fewer than 3 nodes returned sync'' [] \<notin> set es
        \<and> (\<forall>e \<in> set es. is_SendRelay e \<or> is_LogEntry e \<or> is_RecordMetric e)
        \<and> ((\<forall>n \<in> set ns. sendRelay E n \<noteq> RelayResponse Unparseable) \<longrightarrow>
            filter is_RecordMetric es = failure_metrics E aid apk bc ns)"
proof (induction ns arbitrary: acc s)
  case Nil
  show ?case by (rule exI[of _ "[]"]) simp
next
  case (Cons n ns)
  let ?r = "SendRelay sc bc aat (updateConfigurationTimeout cfg) (Some n) False ''synccheck''"
  show ?case
  proof (cases "sendRelay E n")
    case (RelayResponse p)
    show ?thesis
    proof (cases p)
      case Unparseable
      show ?thesis
        by (rule exI[of _ "[?r]"]) (simp add: RelayResponse Unparseable Let_def emit_def)
    next
      case (Result h)
      let ?l = "LogEntry ''info'' ''SYNC CHECK RESULT: '' (publicKey n)"
      obtain es where es: "snd (probe_nodes E sc bc aid apk aat cfg ns
           (acc @ [\<lparr>node = n, nsl_blockchain = bc, blockHeight = h\<rparr>]) (emit ?l (emit ?r s)))
           = (emit ?l (emit ?r s))\<lparr>events := events (emit ?l (emit ?r s)) @ es\<rparr>"
        and p: "filter is_behind es = []" "filter is_RedisSet es = []"
          "LogEntry ''error'' ''SYNC CHECK ERROR: fewer than 3 nodes returned sync'' [] \<notin> set es"
          "\<forall>e \<in> set es. is_SendRelay e \<or> is_LogEntry e \<or> is_RecordMetric e"
          "(\<forall>n \<in> set ns. sendRelay E n \<noteq> RelayResponse Unparseable) \<longrightarrow>
            filter is_RecordMetric es = failure_metrics E aid apk bc ns"
        using Cons.IH by blast
      show ?thesis
        by (rule exI[of _ "?r # ?l # es"])
           (use es p in \<open>simp add: RelayResponse Result Let_def emit_def\<close>)
    qed
  next
    case (RelayError m)
    let ?l = "LogEntry ''error'' ''SYNC CHECK ERROR: '' (publicKey n)"
    let ?m = "RecordMetric (probe_failure_metric aid apk bc n m)"
    obtain es where es: "snd (probe_nodes E sc bc aid apk aat cfg ns acc (emit ?m (emit ?l (emit ?r s))))
           = (emit ?m (emit ?l (emit ?r s)))\<lparr>events := events (emit ?m (emit ?l (emit ?r s))) @ es\<rparr>"
        and p: "filter is_behind es = []" "filter is_RedisSet es = []"
          "LogEntry ''error'' ''SYNC CHECK ERROR: fewer than 3 nodes returned sync'' [] \<notin> set es"
          "\<forall>e \<in> set es. is_SendRelay e \<or> is_LogEntry e \<or> is_RecordMetric e"
          "(\<forall>n \<in> set ns. sendRelay E n \<noteq> RelayResponse Unparseable) \<longrightarrow>
            filter is_RecordMetric es = failure_metrics E aid apk bc ns"
      using Cons.IH by blast
    show ?thesis
      by (rule exI[of _ "?r # ?l # ?m # es"])
         (use es p in \<open>simp add: RelayError Let_def emit_def\<close>)
  next
    case Neither
    obtain es where es: "snd (probe_nodes E sc bc aid apk aat cfg ns acc (emit ?r s))
           = (emit ?r s)\<lparr>events := events (emit ?r s) @ es\<rparr>"
        and p: "filter is_behind es = []" "filter is_RedisSet es = []"
          "LogEntry ''error'' ''SYNC CHECK ERROR: fewer than 3 nodes returned sync'' [] \<notin> set es"
          "\<forall>e \<in> set es. is_SendRelay e \<or> is_LogEntry e \<or> is_RecordMetric e"
          "(\<forall>n \<in> set ns. sendRelay E n \<noteq> RelayResponse Unparseable) \<longrightarrow>
            filter is_RecordMetric es = failure_metrics E aid apk bc ns"
      using Cons.IH by blast
    show ?thesis
      by (rule exI[of _ "?r # es"])
         (use es p in \<open>simp add: Neither Let_def emit_def\<close>)
  qed
qed

text \<open>The admission loop.\<close>

lemma admit_nodes_result:
  "fst (admit_nodes a bc aid apk cur ls (sn, sl) s) =
     (sn @ map node (filter (admits a cur) ls),
      sl @ map (\<lambda>l. publicKey (node l)) (filter (admits a cur) ls))"
  by (induction ls arbitrary: sn sl s) (simp_all add: admits_def)

lemma admit_nodes_state:
  "\<exists>es. snd (admit_nodes a bc aid apk cur ls (sn, sl) s) = s\<lparr>events := events s @ es\<rparr>
        \<and> filter is_RedisSet es = [] \<and> filter is_SendRelay es = []
        \<and> LogEntry ''error'' ''SYNC CHECK ERROR: fewer than 3 nodes returned sync'' [] \<notin> set es
        \<and> ((\<forall>l \<in> set ls. admits a cur l) \<longrightarrow>
             filter is_behind es = [] \<and> filter is_RecordMetric es = [])"
proof (induction ls arbitrary: sn sl s)
  case Nil
  show ?case by (rule exI[of _ "[]"]) simp
next
  case (Cons l ls)
  show ?case
  proof (cases "admits a cur l")
    case True
    let ?e = "LogEntry ''info'' ''SYNC CHECK IN-SYNC: '' (publicKey (node l))"
    obtain es where es: "snd (admit_nodes a bc aid apk cur ls
         (sn @ [node l], sl @ [publicKey (node l)]) (emit ?e s)) = (emit ?e s)\<lparr>events := events (emit ?e s) @ es\<rparr>"
      and p: "filter is_RedisSet es = []" "filter is_SendRelay es = []"
         "LogEntry ''error'' ''SYNC CHECK ERROR: fewer than 3 nodes returned sync'' [] \<notin> set es"
         "(\<forall>l \<in> set ls. admits a cur l) \<longrightarrow> filter is_behind es = [] \<and> filter is_RecordMetric es = []"
      using Cons.IH by blast
    show ?thesis
      by (rule exI[of _ "?e # es"])
         (use True es p in \<open>simp add: admits_def emit_def\<close>)
  next
    case False
    let ?e = "LogEntry ''info'' ''SYNC CHECK BEHIND: '' (publicKey (node l))"
    let ?m = "RecordMetric (out_of_sync_metric aid apk bc (node l))"
    obtain es where es: "snd (admit_nodes a bc aid apk cur ls (sn, sl) (emit ?m (emit ?e s)))
         = (emit ?m (emit ?e s))\<lparr>events := events (emit ?m (emit ?e s)) @ es\<rparr>"
      and p: "filter is_RedisSet es = []" "filter is_SendRelay es = []"
         "LogEntry ''error'' ''SYNC CHECK ERROR: fewer than 3 nodes returned sync'' [] \<notin> set es"
      using Cons.IH by blast
    show ?thesis
      by (rule exI[of _ "?e # ?m # es"])
         (use False es p in \<open>simp add: admits_def emit_def\<close>)
  qed
qed

section \<open>The paths of consensusFilter\<close>

lemma consensusFilter_hit:
  assumes "truthy (cached s0 (syncedNodesKey (sha256_hex E) bc (js_sort cmp_publicKey nodes)))"
  shows "consensusFilter E s0 nodes sc a bc aid apk aat cfg =
     (case JSON_parse_strings E
             (the (cached s0 (syncedNodesKey (sha256_hex E) bc (js_sort cmp_publicKey nodes)))) of
        Inl e \<Rightarrow> \<lparr>result = Inl e, nodes_after = js_sort cmp_publicKey nodes,
                  final = emit (RedisGet (syncedNodesKey (sha256_hex E) bc (js_sort cmp_publicKey nodes))) s0\<rparr>
      | Inr lst \<Rightarrow>
          \<lparr>result = Inr (FreshArray (filter (\<lambda>n. publicKey n \<in> set lst) (js_sort cmp_publicKey nodes))),
           nodes_after = js_sort cmp_publicKey nodes,
           final = emit (RedisGet (syncedNodesKey (sha256_hex E) bc (js_sort cmp_publicKey nodes))) s0\<rparr>)"
  using assms by (simp add: consensusFilter_def Let_def redis_get_def)

lemma consensusFilter_locked:
  assumes "\<not> truthy (cached s0 (syncedNodesKey (sha256_hex E) bc (js_sort cmp_publicKey nodes)))"
    and "truthy (cached s0 (''lock-'' @ syncedNodesKey (sha256_hex E) bc (js_sort cmp_publicKey nodes)))"
  shows "consensusFilter E s0 nodes sc a bc aid apk aat cfg =
     \<lparr>result = Inr InputArray, nodes_after = js_sort cmp_publicKey nodes,
      final = emit (RedisGet (''lock-'' @ syncedNodesKey (sha256_hex E) bc (js_sort cmp_publicKey nodes)))
                (emit (RedisGet (syncedNodesKey (sha256_hex E) bc (js_sort cmp_publicKey nodes))) s0)\<rparr>"
  using assms by (simp add: consensusFilter_def Let_def redis_get_def)

lemma consensusFilter_probing:
  assumes "\<not> truthy (cached s0 (syncedNodesKey (sha256_hex E) bc (js_sort cmp_publicKey nodes)))"
    and "\<not> truthy (cached s0 (''lock-'' @ syncedNodesKey (sha256_hex E) bc (js_sort cmp_publicKey nodes)))"
  shows "consensusFilter E s0 nodes sc a bc aid apk aat cfg =
     (case probe_nodes E sc bc aid apk aat cfg (js_sort cmp_publicKey nodes) []
             (redis_set (''lock-'' @ syncedNodesKey (sha256_hex E) bc (js_sort cmp_publicKey nodes))
                ''true'' [OptEX 60]
                (emit (RedisGet (''lock-'' @ syncedNodesKey (sha256_hex E) bc (js_sort cmp_publicKey nodes)))
                   (emit (RedisGet (syncedNodesKey (sha256_hex E) bc (js_sort cmp_publicKey nodes))) s0))) of
        (Inl e, s4) \<Rightarrow> \<lparr>result = Inl e, nodes_after = js_sort cmp_publicKey nodes, final = s4\<rparr>
      | (Inr probed, s4) \<Rightarrow>
          \<lparr>result = fst (after_probes sc a bc aid apk aat cfg
                           (syncedNodesKey (sha256_hex E) bc (js_sort cmp_publicKey nodes)) probed s4),
           nodes_after = js_sort cmp_publicKey nodes,
           final = snd (after_probes sc a bc aid apk aat cfg
                           (syncedNodesKey (sha256_hex E) bc (js_sort cmp_publicKey nodes)) probed s4)\<rparr>)"
  using assms
  by (simp add: consensusFilter_def Let_def redis_get_def split: prod.splits sum.splits)

lemma nodes_after_consensusFilter:
  "nodes_after (consensusFilter E s0 nodes sc a bc aid apk aat cfg) = js_sort cmp_publicKey nodes"
  by (simp add: consensusFilter_def Let_def split: prod.splits sum.splits)

text \<open>The steps after the probe loop.\<close>

lemma after_probes_result:
  "fst (after_probes sc a bc aid apk aat cfg key probed s) =
     (if length probed \<le> 2 \<or> top_invalid (js_sort cmp_blockHeight probed)
         \<or> cannot_agree (js_sort cmp_blockHeight probed)
      then Inr InputArray
      else Inr (FreshArray (map node
              (filter (admits a (blockHeight (js_sort cmp_blockHeight probed ! 0)))
                 (js_sort cmp_blockHeight probed)))))"
proof -
  have "fst (fst (admit_nodes a bc aid apk cur ls ([], []) s)) = map node (filter (admits a cur) ls)"
    for cur ls
    using admit_nodes_result[of a bc aid apk cur ls "[]" "[]" s] by simp
  then show ?thesis
    by (simp add: after_probes_def Let_def split: prod.splits) (metis fst_conv)
qed

lemma redis_set_no_NX:
  "OptNX \<notin> set args \<Longrightarrow>
   redis_set k v args s = s\<lparr>cache := (cache s)(k \<mapsto> (v, expiry args)), events := events s @ [RedisSet k v args]\<rparr>"
  by (simp add: redis_set_def emit_def)

lemma after_probes_state:
  "\<exists>es c. snd (after_probes sc a bc aid apk aat cfg key probed s) = s\<lparr>cache := c, events := events s @ es\<rparr>
     \<and> (c = cache s \<or> (\<exists>v. c = (cache s)(key \<mapsto> (v, Some 300))))
     \<and> es \<noteq> []
     \<and> (length probed \<le> 2 \<longrightarrow>
          es = [LogEntry ''error'' ''SYNC CHECK ERROR: fewer than 3 nodes returned sync'' []] \<and> c = cache s)
     \<and> (2 < length probed \<longrightarrow>
          LogEntry ''error'' ''SYNC CHECK ERROR: fewer than 3 nodes returned sync'' [] \<notin> set es)
     \<and> ((\<forall>l \<in> set probed. admits a (blockHeight (js_sort cmp_blockHeight probed ! 0)) l) \<longrightarrow>
          filter is_behind es = [] \<and> filter is_RecordMetric es = [])"
proof -
  let ?S = "js_sort cmp_blockHeight probed"
  let ?cur = "blockHeight (?S ! 0)"
  consider (few) "length probed \<le> 2"
    | (invalid) "2 < length probed" "top_invalid ?S"
    | (disagree) "2 < length probed" "\<not> top_invalid ?S" "cannot_agree ?S"
    | (admit) "2 < length probed" "\<not> top_invalid ?S" "\<not> cannot_agree ?S"
    by linarith
  then show ?thesis
  proof cases
    case few
    show ?thesis
      by (rule exI[of _ "[LogEntry ''error'' ''SYNC CHECK ERROR: fewer than 3 nodes returned sync'' []]"],
          rule exI[of _ "cache s"])
         (use few in \<open>simp add: after_probes_def emit_def\<close>)
  next
    case invalid
    show ?thesis
      by (rule exI[of _ "[LogEntry ''error'' ''SYNC CHECK ERROR: top synced node result is invalid '' []]"],
          rule exI[of _ "cache s"])
         (use invalid in \<open>simp add: after_probes_def emit_def Let_def\<close>)
  next
    case disagree
    show ?thesis
      by (rule exI[of _ "[LogEntry ''error'' ''SYNC CHECK ERROR: two highest nodes could not agree on sync'' []]"],
          rule exI[of _ "cache s"])
         (use disagree in \<open>simp add: after_probes_def emit_def Let_def\<close>)
  next
    case admit
    obtain es where es: "snd (admit_nodes a bc aid apk ?cur ?S ([], []) s) = s\<lparr>events := events s @ es\<rparr>"
      and p: "filter is_RedisSet es = []" "filter is_SendRelay es = []"
        "LogEntry ''error'' ''SYNC CHECK ERROR: fewer than 3 nodes returned sync'' [] \<notin> set es"
        "(\<forall>l \<in> set ?S. admits a ?cur l) \<longrightarrow> filter is_behind es = [] \<and> filter is_RecordMetric es = []"
      using admit_nodes_state[of a bc aid apk ?cur ?S "[]" "[]" s] by blast
    obtain sn sl where r: "fst (admit_nodes a bc aid apk ?cur ?S ([], []) s) = (sn, sl)"
      by (cases "fst (admit_nodes a bc aid apk ?cur ?S ([], []) s)") simp
    let ?c = "LogEntry ''info'' ''SYNC CHECK COMPLETE: '' []"
    let ?w = "RedisSet key (JSON_stringify_strings sl) [OptEX 300]"
    let ?ch = "[SendRelay sc bc aat (updateConfigurationConsensus cfg) None True ''syncheck'',
                LogEntry ''info'' ''SYNC CHECK CHALLENGE: '' []]"
    have adm: "admit_nodes a bc aid apk ?cur ?S ([], []) s = ((sn, sl), s\<lparr>events := events s @ es\<rparr>)"
      using es r by (metis prod.collapse)
    show ?thesis
      by (rule exI[of _ "es @ [?c, ?w] @ (if length sn < 5 then ?ch else [])"],
          rule exI[of _ "(cache s)(key \<mapsto> (JSON_stringify_strings sl, Some 300))"])
         (use admit adm p in \<open>auto simp add: after_probes_def Let_def redis_set_no_NX emit_def set_js_sort
             dest!: filter_empty_conv[THEN iffD1]\<close>)
  qed
qed

text \<open>The three ways on from three or more logs.\<close>

lemma after_probes_branches:
  assumes "2 < length probed"
  shows "after_probes sc a bc aid apk aat cfg key probed s
           = (Inr InputArray,
              emit (LogEntry ''error'' ''SYNC CHECK ERROR: top synced node result is invalid '' []) s)
       \<or> after_probes sc a bc aid apk aat cfg key probed s
           = (Inr InputArray,
              emit (LogEntry ''error''
                      ''SYNC CHECK ERROR: two highest nodes could not agree on sync'' []) s)
       \<or> (\<exists>ns es. fst (after_probes sc a bc aid apk aat cfg key probed s) = Inr (FreshArray ns)
             \<and> mset ns \<subseteq># mset (map node probed)
             \<and> events (snd (after_probes sc a bc aid apk aat cfg key probed s)) = events s @ es
             \<and> LogEntry ''info'' ''SYNC CHECK COMPLETE: '' [] \<in> set es
             \<and> RedisSet key (JSON_stringify_strings (map publicKey ns)) [OptEX 300] \<in> set es)"
proof -
  let ?S = "js_sort cmp_blockHeight probed"
  let ?cur = "blockHeight (?S ! 0)"
  let ?ap = "after_probes sc a bc aid apk aat cfg key probed s"
  from assms have nle: "\<not> length probed \<le> 2" by simp
  consider (invalid) "top_invalid ?S"
    | (disagree) "\<not> top_invalid ?S" "cannot_agree ?S"
    | (admit) "\<not> top_invalid ?S" "\<not> cannot_agree ?S"
    by blast
  then show ?thesis
  proof cases
    case invalid
    then show ?thesis using nle by (simp add: after_probes_def Let_def)
  next
    case disagree
    then show ?thesis using nle by (simp add: after_probes_def Let_def)
  next
    case admit
    let ?L = "filter (admits a ?cur) ?S"
    obtain es where es: "snd (admit_nodes a bc aid apk ?cur ?S ([], []) s) = s\<lparr>events := events s @ es\<rparr>"
      using admit_nodes_state[of a bc aid apk ?cur ?S "[]" "[]" s] by blast
    have r: "fst (admit_nodes a bc aid apk ?cur ?S ([], []) s)
               = (map node ?L, map publicKey (map node ?L))"
      using admit_nodes_result[of a bc aid apk ?cur ?S "[]" "[]" s] by (simp add: comp_def)
    have adm: "admit_nodes a bc aid apk ?cur ?S ([], []) s
                 = ((map node ?L, map publicKey (map node ?L)), s\<lparr>events := events s @ es\<rparr>)"
      using es r by (metis prod.collapse)
    let ?c = "LogEntry ''info'' ''SYNC CHECK COMPLETE: '' []"
    let ?w = "RedisSet key (JSON_stringify_strings (map publicKey (map node ?L))) [OptEX 300]"
    let ?ch = "[SendRelay sc bc aat (updateConfigurationConsensus cfg) None True ''syncheck'',
                LogEntry ''info'' ''SYNC CHECK CHALLENGE: '' []]"
    have f: "fst ?ap = Inr (FreshArray (map node ?L))"
      using admit nle adm by (simp add: after_probes_def Let_def)
    have e: "events (snd ?ap) = events s @ (es @ [?c, ?w] @ (if length ?L < 5 then ?ch else []))"
      using admit nle adm by (simp add: after_probes_def Let_def redis_set_no_NX emit_def)
    have "mset (map node ?L) = image_mset node (filter_mset (admits a ?cur) (mset ?S))" by simp
    also have "\<dots> \<subseteq># image_mset node (mset ?S)"
      by (intro image_mset_subseteq_mono multiset_filter_subset)
    also have "\<dots> = mset (map node probed)" by (simp add: mset_js_sort)
    finally have m: "mset (map node ?L) \<subseteq># mset (map node probed)" .
    have "\<exists>ns es. fst ?ap = Inr (FreshArray ns) \<and> mset ns \<subseteq># mset (map node probed)
             \<and> events (snd ?ap) = events s @ es
             \<and> LogEntry ''info'' ''SYNC CHECK COMPLETE: '' [] \<in> set es
             \<and> RedisSet key (JSON_stringify_strings (map publicKey ns)) [OptEX 300] \<in> set es"
      by (rule exI[of _ "map node ?L"],
          rule exI[of _ "es @ [?c, ?w] @ (if length ?L < 5 then ?ch else [])"])
         (use f e m in simp)
    then show ?thesis by blast
  qed
qed

lemma new_events_append [simp]: "new_events s0 (s\<lparr>events := events s0 @ es\<rparr>) = es"
  by (simp add: new_events_def)

lemma map_node_probed_logs: "map node (probed_logs E bc ns) = filter (answered E) ns"
  by (simp add: probed_logs_def comp_def)

lemma set_probed_logs: "node ` set (probed_logs E bc ns) = {n \<in> set ns. answered E n}"
  using map_node_probed_logs[of E bc ns] by (metis set_map set_filter)

text \<open>Logs without \<^verbatim>\<open>NaN\<close>, sorted by line 110: the first is the lowest.\<close>

lemma sorted_logs_facts:
  assumes nonan: "\<forall>l \<in> set ls. blockHeight l \<noteq> NaN" and len: "2 \<le> length ls"
  shows "\<not> cannot_agree (js_sort cmp_blockHeight ls)"
    and "top_invalid (js_sort cmp_blockHeight ls) = (blockHeight (js_sort cmp_blockHeight ls ! 0) = Num 0)"
    and "0 \<le> a \<Longrightarrow> l \<in> set ls \<Longrightarrow> admits a (blockHeight (js_sort cmp_blockHeight ls ! 0)) l"
proof -
  let ?h = "\<lambda>l. int_of (blockHeight l)"
  let ?S = "js_sort cmp_blockHeight ls"
  have S: "?S = sort_key ?h ls" using nonan by (rule js_sort_cmp_blockHeight)
  have srt: "sorted (map ?h ?S)" by (simp add: S)
  have setS: "set ?S = set ls" by (rule set_js_sort)
  have lenS: "length ?S = length ls" by (rule length_js_sort)
  have num: "\<exists>v. blockHeight x = Num v" if "x \<in> set ls" for x
    using nonan that by (cases "blockHeight x") auto
  have in0: "?S ! 0 \<in> set ls" and in1: "?S ! 1 \<in> set ls"
    using len lenS setS by (metis nth_mem less_le_trans zero_less_numeral one_less_numeral_iff semiring_norm(76) setS)+
  have low: "?h (?S ! 0) \<le> ?h x" if "x \<in> set ls" for x
  proof -
    from that setS obtain i where i: "i < length ?S" "?S ! i = x"
      by (metis in_set_conv_nth)
    have "map ?h ?S ! 0 \<le> map ?h ?S ! i"
      using srt i(1) by (intro sorted_nth_mono) simp_all
    moreover have "0 < length ?S" using len lenS by auto
    ultimately show ?thesis using i by simp
  qed
  obtain h0 where h0: "blockHeight (?S ! 0) = Num h0" using num[OF in0] by blast
  obtain h1 where h1: "blockHeight (?S ! 1) = Num h1" using num[OF in1] by blast
  show "\<not> cannot_agree ?S"
    using low[OF in1] h0 h1 by (simp add: cannot_agree_def)
  show "top_invalid ?S = (blockHeight (?S ! 0) = Num 0)"
    using h0 by (simp add: top_invalid_def)
  show "admits a (blockHeight (?S ! 0)) l" if a0: "0 \<le> a" and lin: "l \<in> set ls"
  proof -
    obtain v where v: "blockHeight l = Num v" using num[OF lin] by blast
    show ?thesis using low[OF lin] h0 v a0 by (simp add: admits_def)
  qed
qed


lemmas run_defs = js_sort_def cmp_publicKey_def cmp_blockHeight_def probed_logs_def answered_def
  height_reported_def heights_env_def mk_node_def empty_state_def cached_def syncedNodesKey_def

text \<open>What the probing path returns, and the events and the cache it leaves.\<close>

lemma returned_of_probing:
  assumes miss: "\<not> truthy (cached s0 (session_key E bc nodes))"
    and free: "\<not> truthy (cached s0 (lock_key E bc nodes))"
    and ret: "returned_nodes (consensusFilter E s0 nodes sc a bc aid apk aat cfg) = Some ns"
  shows "ns = js_sort cmp_publicKey nodes \<or>
         (\<exists>P. ns = map node (filter P (sorted_probes E bc nodes)))"
proof -
  let ?N = "js_sort cmp_publicKey nodes"
  let ?s3 = "redis_set (lock_key E bc nodes) ''true'' [OptEX 60]
               (emit (RedisGet (lock_key E bc nodes)) (emit (RedisGet (session_key E bc nodes)) s0))"
  let ?pr = "probe_nodes E sc bc aid apk aat cfg ?N [] ?s3"
  obtain r s4 where pr: "?pr = (r, s4)" by (cases ?pr) auto
  show ?thesis
  proof (cases r)
    case (Inl e)
    with ret pr show ?thesis
      by (simp add: consensusFilter_probing[OF miss free] returned_nodes_def)
  next
    case (Inr logs)
    with pr have "fst ?pr = Inr logs" by simp
    from probe_nodes_logs[OF this] have logs: "logs = probes E bc nodes" by simp
    from ret pr Inr logs show ?thesis
      by (auto simp add: consensusFilter_probing[OF miss free] returned_nodes_def after_probes_result
          split: if_splits)
  qed
qed

lemma mset_filtered_probes: "mset (map node (filter P (sorted_probes E bc nodes))) \<subseteq># mset nodes"
proof -
  let ?N = "js_sort cmp_publicKey nodes"
  have "mset (map node (filter P (sorted_probes E bc nodes)))
        = image_mset node (filter_mset P (mset (sorted_probes E bc nodes)))"
    by simp
  also have "\<dots> \<subseteq># image_mset node (mset (sorted_probes E bc nodes))"
    by (intro image_mset_subseteq_mono multiset_filter_subset)
  also have "\<dots> = mset (map node (probes E bc nodes))"
    by (simp add: mset_js_sort)
  also have "\<dots> = filter_mset (answered E) (mset ?N)"
    by (simp add: map_node_probed_logs)
  also have "\<dots> \<subseteq># mset ?N" by (rule multiset_filter_subset)
  finally show ?thesis by (simp add: mset_js_sort)
qed

lemma probing_events:
  assumes miss: "\<not> truthy (cached s0 (session_key E bc nodes))"
    and free: "\<not> truthy (cached s0 (lock_key E bc nodes))"
  shows "\<exists>es1 es2 r c.
      new_events s0 (final (consensusFilter E s0 nodes sc a bc aid apk aat cfg))
        = [RedisGet (session_key E bc nodes), RedisGet (lock_key E bc nodes),
           RedisSet (lock_key E bc nodes) ''true'' [OptEX 60]] @ es1 @ es2
    \<and> events (final (consensusFilter E s0 nodes sc a bc aid apk aat cfg))
        = events s0 @ new_events s0 (final (consensusFilter E s0 nodes sc a bc aid apk aat cfg))
    \<and> cache (final (consensusFilter E s0 nodes sc a bc aid apk aat cfg)) = c
    \<and> (c = (cache s0)(lock_key E bc nodes \<mapsto> (''true'', Some 60))
        \<or> (\<exists>v. c = (cache s0)(lock_key E bc nodes \<mapsto> (''true'', Some 60),
                              session_key E bc nodes \<mapsto> (v, Some 300))))
    \<and> filter is_RedisSet es1 = []
    \<and> LogEntry ''error'' ''SYNC CHECK ERROR: fewer than 3 nodes returned sync'' [] \<notin> set es1
    \<and> fst (probe_nodes E sc bc aid apk aat cfg (js_sort cmp_publicKey nodes) []
              (redis_set (lock_key E bc nodes) ''true'' [OptEX 60]
                 (emit (RedisGet (lock_key E bc nodes))
                    (emit (RedisGet (session_key E bc nodes)) s0)))) = r
    \<and> (case r of
          Inl e \<Rightarrow> es2 = [] \<and> result (consensusFilter E s0 nodes sc a bc aid apk aat cfg) = Inl e
        | Inr logs \<Rightarrow>
            logs = probes E bc nodes
          \<and> result (consensusFilter E s0 nodes sc a bc aid apk aat cfg)
              = fst (after_probes sc a bc aid apk aat cfg (session_key E bc nodes) logs
                       ((redis_set (lock_key E bc nodes) ''true'' [OptEX 60]
                          (emit (RedisGet (lock_key E bc nodes))
                            (emit (RedisGet (session_key E bc nodes)) s0)))\<lparr>events :=
                           events s0 @ [RedisGet (session_key E bc nodes),
                             RedisGet (lock_key E bc nodes),
                             RedisSet (lock_key E bc nodes) ''true'' [OptEX 60]] @ es1\<rparr>))
          \<and> (length logs \<le> 2 \<longrightarrow>
               es2 = [LogEntry ''error'' ''SYNC CHECK ERROR: fewer than 3 nodes returned sync'' []]
               \<and> c = (cache s0)(lock_key E bc nodes \<mapsto> (''true'', Some 60)))
          \<and> (2 < length logs \<longrightarrow>
               LogEntry ''error'' ''SYNC CHECK ERROR: fewer than 3 nodes returned sync'' []
                 \<notin> set es2))"
proof -
  let ?N = "js_sort cmp_publicKey nodes"
  let ?key = "session_key E bc nodes"
  let ?lock = "lock_key E bc nodes"
  let ?s3 = "redis_set ?lock ''true'' [OptEX 60] (emit (RedisGet ?lock) (emit (RedisGet ?key) s0))"
  let ?pr = "probe_nodes E sc bc aid apk aat cfg ?N [] ?s3"
  let ?out = "consensusFilter E s0 nodes sc a bc aid apk aat cfg"
  let ?pre = "[RedisGet ?key, RedisGet ?lock, RedisSet ?lock ''true'' [OptEX 60]]"
  obtain r s4 where pr: "?pr = (r, s4)" by (cases ?pr) auto
  obtain es1 where es1: "s4 = ?s3\<lparr>events := events ?s3 @ es1\<rparr>"
    and s1: "filter is_RedisSet es1 = []"
    and f1: "LogEntry ''error'' ''SYNC CHECK ERROR: fewer than 3 nodes returned sync'' [] \<notin> set es1"
    using probe_nodes_state[of E sc bc aid apk aat cfg ?N "[]" ?s3] unfolding pr snd_conv by blast
  have ev3: "events ?s3 = events s0 @ ?pre" and c3: "cache ?s3 = (cache s0)(?lock \<mapsto> (''true'', Some 60))"
    by (simp_all add: redis_set_no_NX)
  have s4: "s4 = ?s3\<lparr>events := events s0 @ ?pre @ es1\<rparr>"
    using es1 ev3 by simp
  show ?thesis
  proof (cases r)
    case (Inl e)
    have out: "?out = \<lparr>result = Inl e, nodes_after = ?N, final = s4\<rparr>"
      using pr Inl by (simp add: consensusFilter_probing[OF miss free])
    show ?thesis
      apply (rule exI[of _ es1], rule exI[of _ "[]"], rule exI[of _ r],
          rule exI[of _ "(cache s0)(?lock \<mapsto> (''true'', Some 60))"])
      using Inl pr s1 f1 c3 by (simp add: out s4 new_events_def)
  next
    case (Inr logs)
    with pr have "fst ?pr = Inr logs" by simp
    from probe_nodes_logs[OF this] have logs: "logs = probes E bc nodes" by simp
    let ?ap = "after_probes sc a bc aid apk aat cfg ?key logs s4"
    have out: "?out = \<lparr>result = fst ?ap, nodes_after = ?N, final = snd ?ap\<rparr>"
      using pr Inr by (simp add: consensusFilter_probing[OF miss free])
    obtain es2 c where es2: "snd ?ap = s4\<lparr>cache := c, events := events s4 @ es2\<rparr>"
      and c: "c = cache s4 \<or> (\<exists>v. c = (cache s4)(?key \<mapsto> (v, Some 300)))"
      and few: "length logs \<le> 2 \<longrightarrow>
          es2 = [LogEntry ''error'' ''SYNC CHECK ERROR: fewer than 3 nodes returned sync'' []] \<and> c = cache s4"
      and many: "2 < length logs \<longrightarrow>
          LogEntry ''error'' ''SYNC CHECK ERROR: fewer than 3 nodes returned sync'' [] \<notin> set es2"
      using after_probes_state[of sc a bc aid apk aat cfg ?key logs s4] by blast
    have c4: "cache s4 = (cache s0)(?lock \<mapsto> (''true'', Some 60))"
      using s4 c3 by simp
    have ev: "events (snd ?ap) = events s0 @ ?pre @ es1 @ es2"
      unfolding es2 using s4 by simp
    have cf: "cache (snd ?ap) = c" unfolding es2 by simp
    show ?thesis
      apply (rule exI[of _ es1], rule exI[of _ es2], rule exI[of _ r], rule exI[of _ c])
      using Inr pr s1 f1 c few many logs c4 ev cf s4
      by (simp add: out new_events_def)
  qed
qed

lemma lock_key_neq: "lock_key E bc nodes \<noteq> session_key E bc nodes"
  by (metis append_self_conv2 list.distinct(1) append.simps(2))

lemmas call_defs = consensusFilter_def after_probes_def redis_get_def redis_set_def emit_def
  top_invalid_def cannot_agree_def returned_nodes_def new_events_def Let_def
  updateConfigurationTimeout_def updateConfigurationConsensus_def cfg0_def
  probe_failure_metric_def out_of_sync_metric_def JSON_stringify_strings_def json_array_def
  json_string_def admits_def JSON_stringify_elided_def

section \<open>The canonical JSON of a session\<close>








section \<open>The SHA-256 digest\<close>

text \<open>Rules that run the digest on a message, and the test vector of the standard.\<close>

lemma schedule_numeral:
  "schedule (numeral n) ws =
     schedule (pred_numeral n)
       (add32 (add32 (sigma1 (ws ! 1)) (ws ! 6)) (add32 (sigma0 (ws ! 14)) (ws ! 15)) # ws)"
  by (simp add: numeral_eq_Suc)

lemma replicate_numeral: "replicate (numeral n) x = x # replicate (pred_numeral n) x"
  by (simp add: numeral_eq_Suc)

lemmas sha_eval = SHA256_hex_def sha256_def compress_def pad_def length_bytes_def
  replicate_numeral schedule_numeral K256_def H256_def
  Sigma0_def Sigma1_def sigma0_def sigma1_def Ch_def Maj_def rotr_def shr_def add32_def not32_def
  hex32_def hex_digit_def





text \<open>The digests of the JSON of three small sessions.\<close>

lemma SHA256_hex_abc:
  "SHA256_hex ''abc'' = ''ba7816bf8f01cfea414140de5dae2223b00361a396177a9cb410ff61f20015ad''"
  by (simp add: sha_eval)





section \<open>fetchApp and the verification loop\<close>


lemma fetchApp_miss:
  assumes "\<not> truthy (cached s0 i)"
  shows "fetchApp R s0 i f =
           (case findById R i f of
              Inl e \<Rightarrow> (Inl e, emit (FindById i f) (emit (RedisGet i) s0))
            | Inr application \<Rightarrow>
                (Inr application,
                 redis_set i (JSON_stringify_application R application) [OptEX 60]
                   (emit (FindById i f) (emit (RedisGet i) s0))))"
  using assms by (simp add: fetchApp_def redis_get_def Let_def split: sum.splits)

text \<open>
  A \<^verbatim>\<open>findById\<close> that rejects ends \<^verbatim>\<open>fetchApp\<close> with the rejection, before any write.
\<close>

lemma fetchApp_rejected:
  assumes "\<not> truthy (cached s0 i)" and "findById R i f = Inl e"
  shows "fetchApp R s0 i f = (Inl e, s0\<lparr>events := events s0 @ [RedisGet i, FindById i f]\<rparr>)"
  using assms by (simp add: fetchApp_miss emit_def)






section \<open>The claims\<close>

text \<open>
  Claim C1. The claim takes the reference height of the admission rule to be the highest
  reported height. On the probe heights 100, 100, 99 and 98 with allowance 1 the code
  returns all four nodes, the one at 98 first, though 98 + 1 is below 100: line 110 sorts
  ascending, so the reference height of line 129 is the lowest one, 98.
\<close>

theorem admission_at_100_100_99_98:
  "result (consensusFilter (heights_env [(''a'', 100), (''b'', 100), (''c'', 99), (''d'', 98)])
             empty_state (map mk_node [''a'', ''b'', ''c'', ''d'']) ''{}'' 1 ''0021'' ''app'' ''apk''
             ''aat'' cfg0)
     = Inr (FreshArray (map mk_node [''d'', ''c'', ''a'', ''b'']))
   \<and> height_reported (heights_env [(''a'', 100), (''b'', 100), (''c'', 99), (''d'', 98)])
        (mk_node ''d'') = Num 98
   \<and> \<not> js_ge (js_add (Num 98) (Num 1)) (Num 100)"
  by (simp add: call_defs run_defs)

text \<open>
  Claim C2. On the heights 100, 100, 100 and 90 with allowance 1 the code returns all four
  nodes, the one at 90 included and first. On 200, 100, 100 and 100 the guard of line 124
  does not fire (it compares the two lowest heights): the four nodes come back as the
  admitted set, in the order of the sort, not as the caller's array.
\<close>

theorem guard_at_100_100_100_90_and_200_100_100_100:
  "result (consensusFilter (heights_env [(''a'', 100), (''b'', 100), (''c'', 100), (''d'', 90)])
             empty_state (map mk_node [''a'', ''b'', ''c'', ''d'']) ''{}'' 1 ''0021'' ''app'' ''apk''
             ''aat'' cfg0)
     = Inr (FreshArray (map mk_node [''d'', ''a'', ''b'', ''c'']))
   \<and> result (consensusFilter (heights_env [(''a'', 200), (''b'', 100), (''c'', 100), (''d'', 100)])
             empty_state (map mk_node [''a'', ''b'', ''c'', ''d'']) ''{}'' 1 ''0021'' ''app'' ''apk''
             ''aat'' cfg0)
     = Inr (FreshArray (map mk_node [''b'', ''c'', ''d'', ''a'']))
   \<and> \<not> cannot_agree (sorted_probes
          (heights_env [(''a'', 200), (''b'', 100), (''c'', 100), (''d'', 100)]) ''0021''
          (map mk_node [''a'', ''b'', ''c'', ''d'']))"
  by (simp add: call_defs run_defs)

text \<open>
  Claim C3. In a run that reaches the probe loop (no cached list, no lock) and completes
  it, where at least three probes answer, no answered height is \<^verbatim>\<open>NaN\<close>, the first
  height after the sort of line 110 is not 0 and the allowance is not negative: the call
  returns the nodes of all the probes that answered, in the order of the sorted logs; the
  out-of-sync branch of the admission loop is never taken (its log entry is not among
  the events of the call); and the only metrics recorded are those of the failed probes.
  The sort is ascending, so the reference height is the lowest one.
\<close>

theorem admission_admits_every_probed_node:
  assumes miss: "\<not> truthy (cached s0 (session_key E blockchain nodes))"
    and free: "\<not> truthy (cached s0 (lock_key E blockchain nodes))"
    and parse: "\<forall>n \<in> set nodes. sendRelay E n \<noteq> RelayResponse Unparseable"
    and three: "3 \<le> length (probes E blockchain nodes)"
    and nonan: "\<forall>l \<in> set (probes E blockchain nodes). blockHeight l \<noteq> NaN"
    and nonzero: "blockHeight (sorted_probes E blockchain nodes ! 0) \<noteq> Num 0"
    and allowance: "0 \<le> syncAllowance"
  shows "result (consensusFilter E s0 nodes syncCheck syncAllowance blockchain applicationID
                   applicationPublicKey pocketAAT pocketConfiguration)
           = Inr (FreshArray (map node (sorted_probes E blockchain nodes)))
       \<and> set (map node (sorted_probes E blockchain nodes)) = {n \<in> set nodes. answered E n}
       \<and> filter is_behind
            (new_events s0 (final (consensusFilter E s0 nodes syncCheck syncAllowance blockchain
                   applicationID applicationPublicKey pocketAAT pocketConfiguration))) = []
       \<and> filter is_RecordMetric
            (new_events s0 (final (consensusFilter E s0 nodes syncCheck syncAllowance blockchain
                   applicationID applicationPublicKey pocketAAT pocketConfiguration)))
           = failure_metrics E applicationID applicationPublicKey blockchain
               (js_sort cmp_publicKey nodes)"
proof -
  let ?N = "js_sort cmp_publicKey nodes"
  let ?key = "session_key E blockchain nodes"
  let ?P = "probes E blockchain nodes"
  let ?S = "sorted_probes E blockchain nodes"
  let ?s3 = "redis_set (lock_key E blockchain nodes) ''true'' [OptEX 60]
               (emit (RedisGet (lock_key E blockchain nodes)) (emit (RedisGet ?key) s0))"
  let ?pr = "probe_nodes E syncCheck blockchain applicationID applicationPublicKey pocketAAT
               pocketConfiguration ?N [] ?s3"
  let ?out = "consensusFilter E s0 nodes syncCheck syncAllowance blockchain applicationID
                   applicationPublicKey pocketAAT pocketConfiguration"
  have parse': "\<forall>n \<in> set ?N. sendRelay E n \<noteq> RelayResponse Unparseable"
    using parse by (simp add: set_js_sort)
  have fst_pr: "fst ?pr = Inr ?P"
    using probe_nodes_completes[OF parse', of syncCheck blockchain applicationID
        applicationPublicKey pocketAAT pocketConfiguration "[]" ?s3] by simp
  obtain s4 where pr: "?pr = (Inr ?P, s4)" using fst_pr by (cases ?pr) auto
  obtain es1 where es1: "s4 = ?s3\<lparr>events := events ?s3 @ es1\<rparr>"
    and b1: "filter is_behind es1 = []"
    and m1: "filter is_RecordMetric es1
             = failure_metrics E applicationID applicationPublicKey blockchain ?N"
    using probe_nodes_state[of E syncCheck blockchain applicationID applicationPublicKey
        pocketAAT pocketConfiguration ?N "[]" ?s3] parse' unfolding pr snd_conv by blast
  let ?ap = "after_probes syncCheck syncAllowance blockchain applicationID applicationPublicKey
               pocketAAT pocketConfiguration ?key ?P s4"
  have out: "?out = \<lparr>result = fst ?ap, nodes_after = ?N, final = snd ?ap\<rparr>"
    using consensusFilter_probing[OF miss free, of syncCheck syncAllowance applicationID
        applicationPublicKey pocketAAT pocketConfiguration] pr by simp
  have len2: "2 \<le> length ?P" and len3: "\<not> length ?P \<le> 2" using three by simp_all
  note facts = sorted_logs_facts[OF nonan len2]
  have adm: "\<forall>l \<in> set ?P. admits syncAllowance (blockHeight (?S ! 0)) l"
    using facts(3)[OF allowance] by blast
  have all: "filter (admits syncAllowance (blockHeight (?S ! 0))) ?S = ?S"
    using adm by (simp add: set_js_sort)
  have res: "fst ?ap = Inr (FreshArray (map node ?S))"
    using len3 facts(1) facts(2) nonzero all by (simp add: after_probes_result)
  obtain es2 c where es2: "snd ?ap = s4\<lparr>cache := c, events := events s4 @ es2\<rparr>"
    and b2: "filter is_behind es2 = []" and m2: "filter is_RecordMetric es2 = []"
    using after_probes_state[of syncCheck syncAllowance blockchain applicationID
        applicationPublicKey pocketAAT pocketConfiguration ?key ?P s4] adm by blast
  have ev: "events (snd ?ap) = events s0 @
      ([RedisGet ?key, RedisGet (lock_key E blockchain nodes),
        RedisSet (lock_key E blockchain nodes) ''true'' [OptEX 60]] @ es1 @ es2)"
    unfolding es2 by (simp add: es1 redis_set_no_NX)
  have new: "new_events s0 (snd ?ap) =
      [RedisGet ?key, RedisGet (lock_key E blockchain nodes),
        RedisSet (lock_key E blockchain nodes) ''true'' [OptEX 60]] @ es1 @ es2"
    by (simp add: new_events_def ev)
  have set_eq: "set (map node ?S) = {n \<in> set nodes. answered E n}"
    using set_probed_logs[of E blockchain ?N] by (simp add: set_js_sort)
  show ?thesis
    using res set_eq b1 b2 m1 m2 by (simp add: out new)
qed

text \<open>
  The theorem on four nodes that report the heights 100, 100, 99 and 98, with allowance 1:
  all four are returned, lowest first.
\<close>

theorem admission_admits_every_probed_node_witness:
  "3 \<le> length (probes (heights_env [(''a'', 100), (''b'', 100), (''c'', 99), (''d'', 98)]) ''0021''
                  (map mk_node [''d'', ''c'', ''b'', ''a'']))
   \<and> (0::int) \<le> 1
   \<and> result (consensusFilter (heights_env [(''a'', 100), (''b'', 100), (''c'', 99), (''d'', 98)])
               empty_state (map mk_node [''d'', ''c'', ''b'', ''a'']) ''{}'' 1 ''0021'' ''app'' ''apk''
               ''aat'' cfg0)
       = Inr (FreshArray (map mk_node [''d'', ''c'', ''a'', ''b'']))
   \<and> filter is_behind
        (new_events empty_state
           (final (consensusFilter (heights_env [(''a'', 100), (''b'', 100), (''c'', 99), (''d'', 98)])
               empty_state (map mk_node [''d'', ''c'', ''b'', ''a'']) ''{}'' 1 ''0021'' ''app'' ''apk''
               ''aat'' cfg0))) = []"
proof -
  let ?E = "heights_env [(''a'', 100), (''b'', 100), (''c'', 99), (''d'', 98)]"
  let ?ns = "map mk_node [''d'', ''c'', ''b'', ''a'']"
  have miss: "\<not> truthy (cached empty_state (session_key ?E ''0021'' ?ns))"
    by (simp add: cached_def empty_state_def)
  have free: "\<not> truthy (cached empty_state (lock_key ?E ''0021'' ?ns))"
    by (simp add: cached_def empty_state_def)
  have parse: "\<forall>n \<in> set ?ns. sendRelay ?E n \<noteq> RelayResponse Unparseable"
    by (simp add: heights_env_def mk_node_def)
  have three: "3 \<le> length (probes ?E ''0021'' ?ns)"
    by (simp add: run_defs)
  have nonan: "\<forall>l \<in> set (probes ?E ''0021'' ?ns). blockHeight l \<noteq> NaN"
    by (simp add: run_defs)
  have nonzero: "blockHeight (sorted_probes ?E ''0021'' ?ns ! 0) \<noteq> Num 0"
    by (simp add: run_defs)
  have allowance: "(0::int) \<le> 1" by simp
  have sorted: "map node (sorted_probes ?E ''0021'' ?ns) = map mk_node [''d'', ''c'', ''a'', ''b'']"
    by (simp add: run_defs)
  show ?thesis
    using admission_admits_every_probed_node[OF miss free parse three nonan nonzero allowance,
        of "''{}''" "''app''" "''apk''" "''aat''" cfg0] three
    by (simp only: sorted) simp
qed




text \<open>
  Claim C5 as stated fails: a payload that \<^verbatim>\<open>JSON.parse\<close> rejects ends the call with
  the exception, whatever the number of probes that answered: on a session of the nodes
  a, b and c where a and c answer with a height and b with such a payload, two probes
  would answer, which is fewer than three, and the call returns nothing and logs no
  error; the loop stops at b, with one log collected and c never probed.
\<close>

theorem unparseable_payload_ends_call:
  "length (probes garbled_env ''0021'' (map mk_node [''a'', ''b'', ''c''])) < 3
   \<and> result (consensusFilter garbled_env empty_state (map mk_node [''a'', ''b'', ''c'']) ''{}'' 1
               ''0021'' ''app'' ''apk'' ''aat'' cfg0) = Inl JSONError
   \<and> returned_nodes (consensusFilter garbled_env empty_state (map mk_node [''a'', ''b'', ''c''])
                       ''{}'' 1 ''0021'' ''app'' ''apk'' ''aat'' cfg0) = None
   \<and> LogEntry ''error'' ''SYNC CHECK ERROR: fewer than 3 nodes returned sync'' []
       \<notin> set (events (final (consensusFilter garbled_env empty_state
                                (map mk_node [''a'', ''b'', ''c'']) ''{}'' 1 ''0021'' ''app'' ''apk''
                                ''aat'' cfg0)))
   \<and> filter is_LogEntry
       (events (final (consensusFilter garbled_env empty_state (map mk_node [''a'', ''b'', ''c''])
                         ''{}'' 1 ''0021'' ''app'' ''apk'' ''aat'' cfg0)))
       = [LogEntry ''info'' ''SYNC CHECK RESULT: '' ''a'']
   \<and> map (\<lambda>e. case e of SendRelay sc bc aat cfg n c r \<Rightarrow> map_option publicKey n)
       (filter is_SendRelay
          (events (final (consensusFilter garbled_env empty_state
                            (map mk_node [''a'', ''b'', ''c'']) ''{}'' 1 ''0021'' ''app'' ''apk''
                            ''aat'' cfg0))))
       = [Some ''a'', Some ''b'']"
  by (simp add: run_defs call_defs garbled_env_def)

text \<open>
  Claim C5, amended. In a run that reaches the probe loop and completes it (no relay
  response carries a payload that \<^verbatim>\<open>JSON.parse\<close> rejects): when fewer than three probes
  answered, the call returns the caller's array itself, with every node of the input and
  none filtered out (the array as line 24 left it, in public key order, which is the
  order of the input when the input was in that order), the last event is the error log
  entry, and nothing but the lock was written to the cache. When three or more answered,
  that entry is not logged and the call goes on to the validation of line 113, the guard
  of line 124 and the admission loop: it returns the caller's array after the error
  entry of the validation or of the guard, or it returns a list drawn from the nodes of
  the input after the entry of completion, having written the public keys of that list
  to the cache under the session key for 300 seconds.
\<close>

theorem fewer_than_three_probes_fail_open:
  assumes miss: "\<not> truthy (cached s0 (session_key E blockchain nodes))"
    and free: "\<not> truthy (cached s0 (lock_key E blockchain nodes))"
    and parse: "\<forall>n \<in> set nodes. sendRelay E n \<noteq> RelayResponse Unparseable"
  shows "(length (probes E blockchain nodes) < 3 \<longrightarrow>
            result (consensusFilter E s0 nodes syncCheck syncAllowance blockchain applicationID
                      applicationPublicKey pocketAAT pocketConfiguration) = Inr InputArray
          \<and> returned_nodes (consensusFilter E s0 nodes syncCheck syncAllowance blockchain
                      applicationID applicationPublicKey pocketAAT pocketConfiguration)
              = Some (sort_key publicKey nodes)
          \<and> mset (sort_key publicKey nodes) = mset nodes
          \<and> (sorted (map publicKey nodes) \<longrightarrow>
                returned_nodes (consensusFilter E s0 nodes syncCheck syncAllowance blockchain
                      applicationID applicationPublicKey pocketAAT pocketConfiguration)
                  = Some nodes)
          \<and> last (events (final (consensusFilter E s0 nodes syncCheck syncAllowance blockchain
                      applicationID applicationPublicKey pocketAAT pocketConfiguration)))
              = LogEntry ''error'' ''SYNC CHECK ERROR: fewer than 3 nodes returned sync'' []
          \<and> filter is_RedisSet
               (new_events s0 (final (consensusFilter E s0 nodes syncCheck syncAllowance
                      blockchain applicationID applicationPublicKey pocketAAT pocketConfiguration)))
              = [RedisSet (lock_key E blockchain nodes) ''true'' [OptEX 60]])
       \<and> (3 \<le> length (probes E blockchain nodes) \<longrightarrow>
            LogEntry ''error'' ''SYNC CHECK ERROR: fewer than 3 nodes returned sync'' []
              \<notin> set (new_events s0 (final (consensusFilter E s0 nodes syncCheck syncAllowance
                      blockchain applicationID applicationPublicKey pocketAAT pocketConfiguration)))
          \<and> ((result (consensusFilter E s0 nodes syncCheck syncAllowance blockchain applicationID
                        applicationPublicKey pocketAAT pocketConfiguration) = Inr InputArray
               \<and> last (events (final (consensusFilter E s0 nodes syncCheck syncAllowance
                        blockchain applicationID applicationPublicKey pocketAAT
                        pocketConfiguration)))
                   = LogEntry ''error'' ''SYNC CHECK ERROR: top synced node result is invalid '' [])
            \<or> (result (consensusFilter E s0 nodes syncCheck syncAllowance blockchain applicationID
                        applicationPublicKey pocketAAT pocketConfiguration) = Inr InputArray
               \<and> last (events (final (consensusFilter E s0 nodes syncCheck syncAllowance
                        blockchain applicationID applicationPublicKey pocketAAT
                        pocketConfiguration)))
                   = LogEntry ''error''
                       ''SYNC CHECK ERROR: two highest nodes could not agree on sync'' [])
            \<or> (\<exists>ns. result (consensusFilter E s0 nodes syncCheck syncAllowance blockchain
                        applicationID applicationPublicKey pocketAAT pocketConfiguration)
                       = Inr (FreshArray ns)
                  \<and> mset ns \<subseteq># mset nodes
                  \<and> LogEntry ''info'' ''SYNC CHECK COMPLETE: '' []
                      \<in> set (new_events s0 (final (consensusFilter E s0 nodes syncCheck
                          syncAllowance blockchain applicationID applicationPublicKey pocketAAT
                          pocketConfiguration)))
                  \<and> RedisSet (session_key E blockchain nodes)
                      (JSON_stringify_strings (map publicKey ns)) [OptEX 300]
                      \<in> set (new_events s0 (final (consensusFilter E s0 nodes syncCheck
                          syncAllowance blockchain applicationID applicationPublicKey pocketAAT
                          pocketConfiguration))))))"
proof -
  let ?out = "consensusFilter E s0 nodes syncCheck syncAllowance blockchain applicationID
                      applicationPublicKey pocketAAT pocketConfiguration"
  let ?N = "js_sort cmp_publicKey nodes"
  let ?P = "probes E blockchain nodes"
  let ?key = "session_key E blockchain nodes"
  let ?few = "LogEntry ''error'' ''SYNC CHECK ERROR: fewer than 3 nodes returned sync'' []"
  let ?top = "LogEntry ''error'' ''SYNC CHECK ERROR: top synced node result is invalid '' []"
  let ?two = "LogEntry ''error'' ''SYNC CHECK ERROR: two highest nodes could not agree on sync'' []"
  let ?done = "LogEntry ''info'' ''SYNC CHECK COMPLETE: '' []"
  let ?pre = "[RedisGet (session_key E blockchain nodes), RedisGet (lock_key E blockchain nodes),
           RedisSet (lock_key E blockchain nodes) ''true'' [OptEX 60]]"
  let ?s3 = "redis_set (lock_key E blockchain nodes) ''true'' [OptEX 60]
                 (emit (RedisGet (lock_key E blockchain nodes))
                    (emit (RedisGet (session_key E blockchain nodes)) s0))"
  let ?pr = "probe_nodes E syncCheck blockchain applicationID applicationPublicKey
                  pocketAAT pocketConfiguration ?N [] ?s3"
  have parse': "\<forall>n \<in> set ?N. sendRelay E n \<noteq> RelayResponse Unparseable"
    using parse by (simp add: set_js_sort)
  have fst_pr: "fst ?pr = Inr ?P"
    using probe_nodes_completes[OF parse', of syncCheck blockchain applicationID
        applicationPublicKey pocketAAT pocketConfiguration "[]" ?s3] by simp
  obtain es1 es2 where new: "new_events s0 (final ?out) = ?pre @ es1 @ es2"
    and evs: "events (final ?out) = events s0 @ new_events s0 (final ?out)"
    and s1: "filter is_RedisSet es1 = []"
    and f1: "?few \<notin> set es1"
    and res: "result ?out = fst (after_probes syncCheck syncAllowance blockchain applicationID
                applicationPublicKey pocketAAT pocketConfiguration (session_key E blockchain nodes)
                (probes E blockchain nodes)
                (?s3\<lparr>events := events s0 @ ?pre @ es1\<rparr>))"
    and few: "length (probes E blockchain nodes) \<le> 2 \<longrightarrow> es2 = [?few]"
    and many: "2 < length (probes E blockchain nodes) \<longrightarrow> ?few \<notin> set es2"
    using probing_events[OF miss free, of syncCheck syncAllowance applicationID
        applicationPublicKey pocketAAT pocketConfiguration]
    unfolding fst_pr by (auto simp del: append.simps)
  have part1: "result ?out = Inr InputArray
      \<and> returned_nodes ?out = Some (sort_key publicKey nodes)
      \<and> mset (sort_key publicKey nodes) = mset nodes
      \<and> (sorted (map publicKey nodes) \<longrightarrow> returned_nodes ?out = Some nodes)
      \<and> last (events (final ?out)) = ?few
      \<and> filter is_RedisSet (new_events s0 (final ?out))
          = [RedisSet (lock_key E blockchain nodes) ''true'' [OptEX 60]]"
    if lt: "length (probes E blockchain nodes) < 3"
  proof -
    from lt have le: "length (probes E blockchain nodes) \<le> 2" by simp
    have r: "result ?out = Inr InputArray" using res le by (simp add: after_probes_result)
    have e2: "es2 = [?few]" using few le by simp
    show ?thesis
      using r s1 by (simp add: returned_nodes_def nodes_after_consensusFilter
          js_sort_cmp_publicKey evs new e2 sort_key_id_if_sorted)
  qed
  have part2: "?few \<notin> set (new_events s0 (final ?out))
      \<and> ((result ?out = Inr InputArray \<and> last (events (final ?out)) = ?top)
        \<or> (result ?out = Inr InputArray \<and> last (events (final ?out)) = ?two)
        \<or> (\<exists>ns. result ?out = Inr (FreshArray ns) \<and> mset ns \<subseteq># mset nodes
              \<and> ?done \<in> set (new_events s0 (final ?out))
              \<and> RedisSet ?key (JSON_stringify_strings (map publicKey ns)) [OptEX 300]
                  \<in> set (new_events s0 (final ?out))))"
    if ge: "3 \<le> length (probes E blockchain nodes)"
  proof -
    from ge have gt: "2 < length ?P" by simp
    have nofew: "?few \<notin> set (new_events s0 (final ?out))"
      using many gt f1 by (simp add: new)
    obtain s4 where pr: "?pr = (Inr ?P, s4)" using fst_pr by (cases ?pr) auto
    let ?ap = "after_probes syncCheck syncAllowance blockchain applicationID
                 applicationPublicKey pocketAAT pocketConfiguration ?key ?P s4"
    have out: "?out = \<lparr>result = fst ?ap, nodes_after = ?N, final = snd ?ap\<rparr>"
      using pr by (simp add: consensusFilter_probing[OF miss free])
    obtain es where s4: "s4 = ?s3\<lparr>events := events ?s3 @ es\<rparr>"
      using probe_nodes_state[of E syncCheck blockchain applicationID applicationPublicKey
          pocketAAT pocketConfiguration ?N "[]" ?s3]
      unfolding pr snd_conv by blast
    have ev4: "events s4 = events s0 @ ?pre @ es"
      unfolding s4 by (simp add: redis_set_no_NX)
    have sub: "mset (map node ?P) \<subseteq># mset nodes"
    proof -
      have "mset (map node ?P) = filter_mset (answered E) (mset ?N)"
        by (simp add: map_node_probed_logs)
      also have "\<dots> \<subseteq># mset ?N" by (rule multiset_filter_subset)
      finally show ?thesis by (simp add: mset_js_sort)
    qed
    from after_probes_branches[OF gt, of syncCheck syncAllowance blockchain applicationID
        applicationPublicKey pocketAAT pocketConfiguration ?key s4]
    consider (top) "?ap = (Inr InputArray, emit ?top s4)"
      | (two) "?ap = (Inr InputArray, emit ?two s4)"
      | (fresh) ns es' where "fst ?ap = Inr (FreshArray ns)" "mset ns \<subseteq># mset (map node ?P)"
          "events (snd ?ap) = events s4 @ es'" "?done \<in> set es'"
          "RedisSet ?key (JSON_stringify_strings (map publicKey ns)) [OptEX 300] \<in> set es'"
      by blast
    then have "(result ?out = Inr InputArray \<and> last (events (final ?out)) = ?top)
        \<or> (result ?out = Inr InputArray \<and> last (events (final ?out)) = ?two)
        \<or> (\<exists>ns. result ?out = Inr (FreshArray ns) \<and> mset ns \<subseteq># mset nodes
              \<and> ?done \<in> set (new_events s0 (final ?out))
              \<and> RedisSet ?key (JSON_stringify_strings (map publicKey ns)) [OptEX 300]
                  \<in> set (new_events s0 (final ?out)))"
    proof cases
      case top
      then show ?thesis unfolding out by simp
    next
      case two
      then show ?thesis unfolding out by simp
    next
      case fresh
      have ne: "new_events s0 (snd ?ap) = ?pre @ es @ es'"
        unfolding new_events_def fresh(3) ev4 by simp
      have "result ?out = Inr (FreshArray ns) \<and> mset ns \<subseteq># mset nodes
              \<and> ?done \<in> set (new_events s0 (final ?out))
              \<and> RedisSet ?key (JSON_stringify_strings (map publicKey ns)) [OptEX 300]
                  \<in> set (new_events s0 (final ?out))"
        unfolding out using fresh(1,4,5) subset_mset.order_trans[OF fresh(2) sub]
        by (simp add: ne)
      then show ?thesis by blast
    qed
    with nofew show ?thesis by blast
  qed
  show ?thesis using part1 part2 by blast
qed

text \<open>
  The theorem on a session of three nodes where two probes answer, and on one of four
  nodes where all four answer.
\<close>

theorem fewer_than_three_probes_fail_open_witness:
  "length (probes (heights_env [(''a'', 100), (''b'', 100)]) ''0021''
             (map mk_node [''c'', ''b'', ''a''])) < 3
   \<and> returned_nodes (consensusFilter (heights_env [(''a'', 100), (''b'', 100)]) empty_state
                       (map mk_node [''c'', ''b'', ''a'']) ''{}'' 1 ''0021'' ''app'' ''apk'' ''aat'' cfg0)
       = Some (map mk_node [''a'', ''b'', ''c''])
   \<and> 3 \<le> length (probes (heights_env [(''a'', 100), (''b'', 100), (''c'', 99), (''d'', 98)])
                  ''0021'' (map mk_node [''d'', ''c'', ''b'', ''a'']))
   \<and> LogEntry ''error'' ''SYNC CHECK ERROR: fewer than 3 nodes returned sync'' []
       \<notin> set (new_events empty_state
                 (final (consensusFilter
                           (heights_env [(''a'', 100), (''b'', 100), (''c'', 99), (''d'', 98)])
                           empty_state (map mk_node [''d'', ''c'', ''b'', ''a'']) ''{}'' 1 ''0021''
                           ''app'' ''apk'' ''aat'' cfg0)))
   \<and> LogEntry ''info'' ''SYNC CHECK COMPLETE: '' []
       \<in> set (new_events empty_state
                 (final (consensusFilter
                           (heights_env [(''a'', 100), (''b'', 100), (''c'', 99), (''d'', 98)])
                           empty_state (map mk_node [''d'', ''c'', ''b'', ''a'']) ''{}'' 1 ''0021''
                           ''app'' ''apk'' ''aat'' cfg0)))"
proof -
  let ?E2 = "heights_env [(''a'', 100), (''b'', 100)]"
  let ?n3 = "map mk_node [''c'', ''b'', ''a'']"
  let ?E4 = "heights_env [(''a'', 100), (''b'', 100), (''c'', 99), (''d'', 98)]"
  let ?n4 = "map mk_node [''d'', ''c'', ''b'', ''a'']"
  let ?out4 = "consensusFilter ?E4 empty_state ?n4 ''{}'' 1 ''0021'' ''app'' ''apk'' ''aat'' cfg0"
  have miss2: "\<not> truthy (cached empty_state (session_key ?E2 ''0021'' ?n3))"
    and free2: "\<not> truthy (cached empty_state (lock_key ?E2 ''0021'' ?n3))"
    and miss4: "\<not> truthy (cached empty_state (session_key ?E4 ''0021'' ?n4))"
    and free4: "\<not> truthy (cached empty_state (lock_key ?E4 ''0021'' ?n4))"
    by (simp_all add: cached_def empty_state_def)
  have parse2: "\<forall>n \<in> set ?n3. sendRelay ?E2 n \<noteq> RelayResponse Unparseable"
    and parse4: "\<forall>n \<in> set ?n4. sendRelay ?E4 n \<noteq> RelayResponse Unparseable"
    by (simp_all add: heights_env_def mk_node_def)
  have few: "length (probes ?E2 ''0021'' ?n3) < 3" by (simp add: run_defs)
  have many: "3 \<le> length (probes ?E4 ''0021'' ?n4)" by (simp add: run_defs)
  have srt: "sort_key publicKey ?n3 = map mk_node [''a'', ''b'', ''c'']"
    by (simp add: mk_node_def)
  have last4: "last (events (final ?out4)) = LogEntry ''info'' ''SYNC CHECK CHALLENGE: '' []"
    by (simp add: run_defs call_defs)
  have a: "returned_nodes (consensusFilter ?E2 empty_state ?n3 ''{}'' 1 ''0021'' ''app'' ''apk''
                             ''aat'' cfg0) = Some (map mk_node [''a'', ''b'', ''c''])"
    using fewer_than_three_probes_fail_open[OF miss2 free2 parse2,
        of "''{}''" 1 "''app''" "''apk''" "''aat''" cfg0] few
    by (simp only: srt)
  have b: "LogEntry ''error'' ''SYNC CHECK ERROR: fewer than 3 nodes returned sync'' []
             \<notin> set (new_events empty_state (final ?out4))
         \<and> LogEntry ''info'' ''SYNC CHECK COMPLETE: '' []
             \<in> set (new_events empty_state (final ?out4))"
    using fewer_than_three_probes_fail_open[OF miss4 free4 parse4,
        of "''{}''" 1 "''app''" "''apk''" "''aat''" cfg0] many last4
    by auto
  show ?thesis using few many a b by simp
qed

text \<open>
  Claim C6. Whatever list a call returns, its nodes are nodes of the input, each at most
  as often as the input has it. On a cache hit the list is the input (in public key
  order) filtered to the nodes whose public key is in the cached list.
\<close>

theorem returned_nodes_drawn_from_input:
  "(returned_nodes (consensusFilter E s0 nodes syncCheck syncAllowance blockchain applicationID
                      applicationPublicKey pocketAAT pocketConfiguration) = Some ns
      \<longrightarrow> mset ns \<subseteq># mset nodes \<and> set ns \<subseteq> set nodes)
   \<and> (truthy (cached s0 (session_key E blockchain nodes))
       \<and> JSON_parse_strings E (the (cached s0 (session_key E blockchain nodes))) = Inr keys
      \<longrightarrow> returned_nodes (consensusFilter E s0 nodes syncCheck syncAllowance blockchain
                      applicationID applicationPublicKey pocketAAT pocketConfiguration)
            = Some (filter (\<lambda>n. publicKey n \<in> set keys) (sort_key publicKey nodes))
          \<and> set (filter (\<lambda>n. publicKey n \<in> set keys) (sort_key publicKey nodes))
            = {n \<in> set nodes. publicKey n \<in> set keys})"
proof -
  let ?out = "consensusFilter E s0 nodes syncCheck syncAllowance blockchain applicationID
                      applicationPublicKey pocketAAT pocketConfiguration"
  let ?N = "js_sort cmp_publicKey nodes"
  have sub: "mset ns \<subseteq># mset nodes" if ret: "returned_nodes ?out = Some ns"
  proof (cases "truthy (cached s0 (session_key E blockchain nodes))")
    case True
    from ret obtain ks where "ns = filter (\<lambda>n. publicKey n \<in> set ks) ?N"
      by (auto simp: consensusFilter_hit[OF True] returned_nodes_def split: sum.splits)
    then have "mset ns \<subseteq># mset ?N" by simp
    then show ?thesis by (simp add: mset_js_sort)
  next
    case miss: False
    show ?thesis
    proof (cases "truthy (cached s0 (lock_key E blockchain nodes))")
      case True
      from ret have "ns = ?N"
        by (simp add: consensusFilter_locked[OF miss True] returned_nodes_def)
      then show ?thesis by (simp add: mset_js_sort)
    next
      case False
      from returned_of_probing[OF miss False ret]
      show ?thesis using mset_filtered_probes[of _ E blockchain nodes]
        by (auto simp: mset_js_sort)
    qed
  qed
  have hit: "returned_nodes ?out = Some (filter (\<lambda>n. publicKey n \<in> set keys) (sort_key publicKey nodes))"
    if "truthy (cached s0 (session_key E blockchain nodes))"
      and "JSON_parse_strings E (the (cached s0 (session_key E blockchain nodes))) = Inr keys"
    using that by (simp add: consensusFilter_hit returned_nodes_def js_sort_cmp_publicKey)
  have sub_set: "set ns \<subseteq> set nodes" if "returned_nodes ?out = Some ns"
    using sub[OF that] by (rule set_mset_mono[of "mset ns" "mset nodes", simplified])
  show ?thesis
    using sub sub_set hit by auto
qed

text \<open>
  The theorem on a session of the nodes c, b and a with the list of a and c in the cache.
\<close>

theorem returned_nodes_drawn_from_input_witness:
  "returned_nodes (consensusFilter (heights_env []) cached_state (map mk_node [''c'', ''b'', ''a''])
                     ''{}'' 1 ''0021'' ''app'' ''apk'' ''aat'' cfg0)
     = Some (map mk_node [''a'', ''c''])
   \<and> set (map mk_node [''a'', ''c'']) \<subseteq> set (map mk_node [''c'', ''b'', ''a''])"
proof -
  let ?E = "heights_env []"
  let ?ns = "map mk_node [''c'', ''b'', ''a'']"
  have key: "session_key ?E ''0021'' ?ns = ''0021-5ca1ab1e''"
    by (simp add: syncedNodesKey_def heights_env_def)
  have hit: "truthy (cached cached_state (session_key ?E ''0021'' ?ns))"
    unfolding key by (simp add: cached_def cached_state_def JSON_stringify_strings_def json_array_def)
  have parsed: "JSON_parse_strings ?E (the (cached cached_state (session_key ?E ''0021'' ?ns)))
                  = Inr [''a'', ''c'']"
    unfolding key by (simp add: cached_def cached_state_def heights_env_def)
  have flt: "filter (\<lambda>n. publicKey n \<in> set [''a'', ''c'']) (sort_key publicKey ?ns)
               = map mk_node [''a'', ''c'']"
    by (simp add: mk_node_def)
  have ret: "returned_nodes (consensusFilter ?E cached_state ?ns ''{}'' 1 ''0021'' ''app'' ''apk''
                ''aat'' cfg0) = Some (map mk_node [''a'', ''c''])"
    using returned_nodes_drawn_from_input[of ?E cached_state ?ns "''{}''" 1 "''0021''" "''app''"
        "''apk''" "''aat''" cfg0 "map mk_node [''a'', ''c'']" "[''a'', ''c'']"] hit parsed
    by (simp only: flt)
  show ?thesis
    using returned_nodes_drawn_from_input[of ?E cached_state ?ns "''{}''" 1 "''0021''" "''app''"
        "''apk''" "''aat''" cfg0 "map mk_node [''a'', ''c'']" "[''a'', ''c'']"] ret
    by blast
qed

text \<open>
  Claim C7 as stated fails: the lock is written by a plain \<^verbatim>\<open>SET\<close> with \<^verbatim>\<open>EX 60\<close>, after a
  separate \<^verbatim>\<open>GET\<close>. On an empty cache the only \<^verbatim>\<open>SET\<close> of a run whose probes all
  fail is the one of the lock, and \<^verbatim>\<open>NX\<close> is not among its arguments.
\<close>

theorem lock_set_has_no_NX:
  "filter is_RedisSet
     (events (final (consensusFilter (heights_env []) empty_state (map mk_node [''a'', ''b''])
                       ''{}'' 1 ''0021'' ''app'' ''apk'' ''aat'' cfg0)))
     = [RedisSet ''lock-0021-5ca1ab1e'' ''true'' [OptEX 60]]
   \<and> OptNX \<notin> set [OptEX 60]"
  by (simp add: call_defs run_defs)

text \<open>
  Claim C7, amended. On a miss of the session's list: when the lock key holds a non-empty
  value, the call returns the caller's array after the two reads, with no relay sent and
  the cache as it was; otherwise the first three events of the call are the two reads
  and \<^verbatim>\<open>SET lock-key true EX 60\<close> (every relay comes after them), and the lock is in
  the cache with an expiry of 60 seconds when the call ends.
\<close>

theorem lock_found_or_set_before_probing:
  assumes miss: "\<not> truthy (cached s0 (session_key E blockchain nodes))"
  shows "(truthy (cached s0 (lock_key E blockchain nodes)) \<longrightarrow>
            result (consensusFilter E s0 nodes syncCheck syncAllowance blockchain applicationID
                      applicationPublicKey pocketAAT pocketConfiguration) = Inr InputArray
          \<and> new_events s0 (final (consensusFilter E s0 nodes syncCheck syncAllowance blockchain
                      applicationID applicationPublicKey pocketAAT pocketConfiguration))
              = [RedisGet (session_key E blockchain nodes), RedisGet (lock_key E blockchain nodes)]
          \<and> cache (final (consensusFilter E s0 nodes syncCheck syncAllowance blockchain
                      applicationID applicationPublicKey pocketAAT pocketConfiguration)) = cache s0)
       \<and> (\<not> truthy (cached s0 (lock_key E blockchain nodes)) \<longrightarrow>
            take 3 (new_events s0 (final (consensusFilter E s0 nodes syncCheck syncAllowance
                      blockchain applicationID applicationPublicKey pocketAAT pocketConfiguration)))
              = [RedisGet (session_key E blockchain nodes), RedisGet (lock_key E blockchain nodes),
                 RedisSet (lock_key E blockchain nodes) ''true'' [OptEX 60]]
          \<and> cache (final (consensusFilter E s0 nodes syncCheck syncAllowance blockchain
                      applicationID applicationPublicKey pocketAAT pocketConfiguration))
                (lock_key E blockchain nodes) = Some (''true'', Some 60))"
proof -
  let ?out = "consensusFilter E s0 nodes syncCheck syncAllowance blockchain applicationID
                      applicationPublicKey pocketAAT pocketConfiguration"
  have held: "result ?out = Inr InputArray
      \<and> new_events s0 (final ?out)
          = [RedisGet (session_key E blockchain nodes), RedisGet (lock_key E blockchain nodes)]
      \<and> cache (final ?out) = cache s0"
    if "truthy (cached s0 (lock_key E blockchain nodes))"
    by (simp add: consensusFilter_locked[OF miss that] new_events_def)
  have free: "take 3 (new_events s0 (final ?out))
          = [RedisGet (session_key E blockchain nodes), RedisGet (lock_key E blockchain nodes),
             RedisSet (lock_key E blockchain nodes) ''true'' [OptEX 60]]
      \<and> cache (final ?out) (lock_key E blockchain nodes) = Some (''true'', Some 60)"
    if nolock: "\<not> truthy (cached s0 (lock_key E blockchain nodes))"
  proof -
    obtain es1 es2 c where new: "new_events s0 (final ?out)
        = [RedisGet (session_key E blockchain nodes), RedisGet (lock_key E blockchain nodes),
             RedisSet (lock_key E blockchain nodes) ''true'' [OptEX 60]] @ es1 @ es2"
      and c: "cache (final ?out) = c"
        "c = (cache s0)(lock_key E blockchain nodes \<mapsto> (''true'', Some 60))
          \<or> (\<exists>v. c = (cache s0)(lock_key E blockchain nodes \<mapsto> (''true'', Some 60),
                              session_key E blockchain nodes \<mapsto> (v, Some 300)))"
      using probing_events[OF miss nolock, of syncCheck syncAllowance applicationID
          applicationPublicKey pocketAAT pocketConfiguration] by blast
    have "c (lock_key E blockchain nodes) = Some (''true'', Some 60)"
      using c(2) lock_key_neq[of E blockchain nodes] by (auto simp del: append.simps)
    then show ?thesis using new c(1) by simp
  qed
  show ?thesis using held free by blast
qed

text \<open>
  The theorem on a cache that holds the lock, and on an empty cache.
\<close>

theorem lock_found_or_set_before_probing_witness:
  "result (consensusFilter (heights_env []) locked_state (map mk_node [''a'', ''b''])
             ''{}'' 1 ''0021'' ''app'' ''apk'' ''aat'' cfg0) = Inr InputArray
   \<and> new_events locked_state
        (final (consensusFilter (heights_env []) locked_state (map mk_node [''a'', ''b''])
             ''{}'' 1 ''0021'' ''app'' ''apk'' ''aat'' cfg0))
       = [RedisGet ''0021-5ca1ab1e'', RedisGet ''lock-0021-5ca1ab1e'']
   \<and> cache (final (consensusFilter (heights_env []) empty_state (map mk_node [''a'', ''b''])
             ''{}'' 1 ''0021'' ''app'' ''apk'' ''aat'' cfg0)) ''lock-0021-5ca1ab1e''
       = Some (''true'', Some 60)"
proof -
  let ?E = "heights_env []"
  let ?ns = "map mk_node [''a'', ''b'']"
  have key: "session_key ?E ''0021'' ?ns = ''0021-5ca1ab1e''"
    by (simp add: syncedNodesKey_def heights_env_def)
  have miss1: "\<not> truthy (cached locked_state (session_key ?E ''0021'' ?ns))"
    unfolding key by (simp add: cached_def locked_state_def)
  have held: "truthy (cached locked_state (lock_key ?E ''0021'' ?ns))"
    unfolding key by (simp add: cached_def locked_state_def)
  have miss2: "\<not> truthy (cached empty_state (session_key ?E ''0021'' ?ns))"
    by (simp add: cached_def empty_state_def)
  have free: "\<not> truthy (cached empty_state (lock_key ?E ''0021'' ?ns))"
    by (simp add: cached_def empty_state_def)
  show ?thesis
    using lock_found_or_set_before_probing[OF miss1, of "''{}''" 1 "''app''" "''apk''" "''aat''" cfg0]
      lock_found_or_set_before_probing[OF miss2, of "''{}''" 1 "''app''" "''apk''" "''aat''" cfg0]
      held free
    unfolding key by simp
qed






text \<open>
  Claim C10. Whatever path a call takes, the caller's array ends as the input sorted by
  public key, ascending: a permutation of the input, made of the same node records.
\<close>

theorem consensusFilter_sorts_callers_array:
  "nodes_after (consensusFilter E s0 nodes syncCheck syncAllowance blockchain applicationID
                  applicationPublicKey pocketAAT pocketConfiguration)
     = sort_key publicKey nodes
   \<and> sorted (map publicKey
         (nodes_after (consensusFilter E s0 nodes syncCheck syncAllowance blockchain applicationID
                  applicationPublicKey pocketAAT pocketConfiguration)))
   \<and> mset (nodes_after (consensusFilter E s0 nodes syncCheck syncAllowance blockchain
                  applicationID applicationPublicKey pocketAAT pocketConfiguration))
     = mset nodes"
  by (simp add: nodes_after_consensusFilter js_sort_cmp_publicKey)

end
